theory Spec2Isabelle
  imports Complex_Main
begin

section \<open>Python values used by monitor.py\<close>

text \<open>
  Exceptions are values. \<open>KeyboardInterrupt\<close> is the only one here that is not a
  subclass of Python's \<open>Exception\<close>, so an \<open>except Exception\<close> clause lets it pass.
  Every other constructor carries the text that \<open>str(e)\<close> gives.
\<close>

datatype exn =
    KeyboardInterrupt
  | FileNotFoundError string
  | YAMLError string
  | ZeroDivisionError string
  | ValueError string
  | TypeError string
  | PermissionError string
  | UnicodeDecodeError string
  | OtherException string

fun is_Exception :: "exn \<Rightarrow> bool" where
  "is_Exception KeyboardInterrupt = False"
| "is_Exception _ = True"

fun exn_str :: "exn \<Rightarrow> string" where
  "exn_str KeyboardInterrupt = []"
| "exn_str (FileNotFoundError s) = s"
| "exn_str (YAMLError s) = s"
| "exn_str (ZeroDivisionError s) = s"
| "exn_str (ValueError s) = s"
| "exn_str (TypeError s) = s"
| "exn_str (PermissionError s) = s"
| "exn_str (UnicodeDecodeError s) = s"
| "exn_str (OtherException s) = s"

text \<open>
  A finite Python float is modelled by the real number it denotes (a dyadic rational), so
  that \<open>>\<close> between floats, and between a float and an int, is the comparison of the
  reals, as in Python. A number read from YAML is an int or a float.
\<close>

datatype pynum = PyInt int | PyFloat real

fun num_val :: "pynum \<Rightarrow> real" where
  "num_val (PyInt i) = real_of_int i"
| "num_val (PyFloat x) = x"

subsection \<open>Rendering numbers\<close>

definition digit_char :: "nat \<Rightarrow> char" where
  "digit_char d = ''0123456789'' ! d"

function str_nat :: "nat \<Rightarrow> string" where
  "str_nat n = (if n < 10 then [digit_char n] else str_nat (n div 10) @ [digit_char (n mod 10)])"
  by pat_completeness auto
termination
  by (relation "measure id") auto

declare str_nat.simps [simp del]

definition str_int :: "int \<Rightarrow> string" where
  "str_int i = (if i < 0 then CHR ''-'' # str_nat (nat (- i)) else str_nat (nat i))"

text \<open>
  The format specification \<open>:.1f\<close> prints the decimal with one fractional digit that is
  nearest to the exact value of the float, a tie going to the even digit, and keeps the
  sign of a negative value that rounds to zero.
\<close>

definition round_half_even :: "real \<Rightarrow> int" where
  "round_half_even x =
     (let f = \<lfloor>x\<rfloor>; d = x - real_of_int f
      in if d < 1 / 2 then f else if 1 / 2 < d then f + 1 else if even f then f else f + 1)"

definition format_1f :: "real \<Rightarrow> string" where
  "format_1f x =
     (let t = nat (round_half_even (\<bar>x\<bar> * 10))
      in (if x < 0 then ''-'' else '''') @ str_nat (t div 10) @ ''.'' @ str_nat (t mod 10))"

text \<open>
  What the standard library computes in floating point, and the text of a date, is taken
  as a parameter: \<open>float_str\<close> is \<open>str\<close> and \<open>repr\<close> of a float, \<open>float_of_str\<close> is
  \<open>float\<close> of a number token, \<open>to_gb b\<close> is \<open>round(b / (1024**3), 2)\<close>,
  \<open>used_percent u t\<close> is \<open>round((u / t) * 100, 2)\<close> for \<open>t \<noteq> 0\<close>, \<open>round2 x\<close> is
  \<open>round(x, 2)\<close>, and \<open>strftime_text t\<close> is the text \<open>'%Y-%m-%d %H:%M:%S'\<close> of the
  whole second \<open>t\<close>.
\<close>

record pylib =
  float_str :: "real \<Rightarrow> string"
  float_of_str :: "string \<Rightarrow> real option"
  to_gb :: "int \<Rightarrow> real"
  used_percent :: "int \<Rightarrow> int \<Rightarrow> real"
  round2 :: "real \<Rightarrow> real"
  strftime_text :: "int \<Rightarrow> string"

text \<open>\<open>round(x, 2)\<close> of an int is that int.\<close>

fun py_round2 :: "pylib \<Rightarrow> pynum \<Rightarrow> pynum" where
  "py_round2 lib (PyInt i) = PyInt i"
| "py_round2 lib (PyFloat x) = PyFloat (round2 lib x)"

fun str_num :: "pylib \<Rightarrow> pynum \<Rightarrow> string" where
  "str_num lib (PyInt i) = str_int i"
| "str_num lib (PyFloat x) = float_str lib x"

subsection \<open>Dates and durations\<close>

text \<open>
  A naive \<open>datetime\<close> is the number of microseconds on its time line. A \<open>timedelta\<close>
  is kept normalised by Python: \<open>0 \<le> seconds < 86400\<close> and \<open>0 \<le> microseconds < 10^6\<close>,
  the sign being carried by \<open>days\<close>. The text \<open>'%Y-%m-%d %H:%M:%S'\<close> of a datetime is
  represented by the whole second it names.
\<close>

type_synonym datetime = int

record timedelta =
  days :: int
  seconds :: int
  microseconds :: int

definition datetime_sub :: "datetime \<Rightarrow> datetime \<Rightarrow> timedelta" where
  "datetime_sub a b =
     (let us = a - b
      in \<lparr>days = us div 86400000000,
          seconds = (us div 1000000) mod 86400,
          microseconds = us mod 1000000\<rparr>)"

definition strftime :: "datetime \<Rightarrow> int" where
  "strftime t = t div 1000000"

section \<open>Configuration\<close>

record threshold_config =
  thr_cpu :: pynum
  thr_memory :: pynum
  thr_disk :: pynum

record email_config =
  enabled :: bool
  smtp_server :: string
  port :: int
  from_addr :: string
  to_addr :: string
  username :: string
  password :: string

record logging_config =
  log_level :: string
  log_file :: string

record config =
  thresholds :: threshold_config
  check_interval :: int
  email :: email_config
  logging :: logging_config

definition get_default_config :: config where
  "get_default_config =
     \<lparr>thresholds = \<lparr>thr_cpu = PyInt 80, thr_memory = PyInt 85, thr_disk = PyInt 90\<rparr>,
      check_interval = 60,
      email = \<lparr>enabled = False, smtp_server = ''smtp.gmail.com'', port = 587,
               from_addr = ''monitoring@example.com'', to_addr = ''admin@example.com'',
               username = [], password = []\<rparr>,
      logging = \<lparr>log_level = ''INFO'', log_file = ''system_monitor.log''\<rparr>\<rparr>"

section \<open>Snapshots\<close>

record cpu_stats =
  cpu_percent :: real
  cpu_count_logical :: "int option"
  cpu_count_physical :: "int option"
  cpu_load_avg :: pynum

record memory_stats =
  memory_percent :: real
  memory_total_gb :: real
  memory_used_gb :: real
  memory_available_gb :: real

record disk_stats =
  disk_percent :: real
  disk_total_gb :: real
  disk_used_gb :: real
  disk_free_gb :: real

record network_stats =
  bytes_sent :: int
  bytes_recv :: int
  packets_sent :: int
  packets_recv :: int

record system_stats =
  uptime_days :: int
  uptime_hours :: int
  process_count :: nat
  boot_time :: int

record stats =
  timestamp :: int
  cpu :: cpu_stats
  memory :: memory_stats
  disk :: disk_stats
  network :: network_stats
  system :: system_stats

section \<open>The monitor object and what it emits\<close>

text \<open>
  The logger, the console and the mail transport are outside the program; what the
  monitor hands to them is recorded in order. \<open>Display\<close> stands for the text printed
  by \<open>display_stats\<close>. \<open>Dispatch\<close> records that \<open>send_alert\<close> has built the message
  from the alerts and the snapshot and starts the SMTP session for it; \<open>Sent\<close> records
  that \<open>server.send_message\<close> has returned, so that the mail transport has accepted
  the message. \<open>Written\<close> is a file name with the text written to it.
\<close>

datatype event =
    Log_info string
  | Log_warning string
  | Log_error string
  | Print string
  | Display stats "string list"
  | Dispatch "string list" stats
  | Sent "string list" stats
  | Written string string

record monitor =
  config_file :: string
  config :: config
  alert_sent :: bool
  trace :: "event list"

definition emit :: "event \<Rightarrow> monitor \<Rightarrow> monitor" where
  "emit e m = m\<lparr>trace := trace m @ [e]\<rparr>"

subsection \<open>Loading the configuration\<close>

text \<open>
  \<open>open\<close> followed by \<open>yaml.safe_load\<close> either yields the parsed document or raises.
  The document of an empty file is \<open>None\<close>; any other document is taken to have the
  shape of \<open>config\<close>. The loader returns the document as it is.
\<close>

datatype load_outcome = Loaded "config option" | Load_raises exn

fun load_config :: "string \<Rightarrow> load_outcome \<Rightarrow> (exn + config option) \<times> event list" where
  "load_config f (Loaded c) = (Inr c, [])"
| "load_config f (Load_raises (FileNotFoundError s)) =
     (Inr (Some get_default_config),
      [Print (''Config file '' @ f @ '' not found. Using default settings.'')])"
| "load_config f (Load_raises (YAMLError s)) =
     (Inr (Some get_default_config), [Print (''Error parsing config file: '' @ s)])"
| "load_config f (Load_raises e) = (Inl e, [])"

text \<open>
  \<open>_setup_logging\<close> subscripts the configuration, which raises \<open>TypeError\<close> on
  \<open>None\<close>, then looks the level name up in the \<open>logging\<close> module and opens the log
  file. Whether the look-up and the opening succeed is an outcome of the environment.
  It returns only for a configuration that it could subscript, which is the result here.
\<close>

datatype logging_outcome = Logging_ok | Logging_raises exn

definition setup_logging :: "config option \<Rightarrow> logging_outcome \<Rightarrow> exn + config" where
  "setup_logging c out =
     (case c of
        None \<Rightarrow>
          Inl (TypeError (CHR 0x27 # ''NoneType'' @ CHR 0x27 # '' object is not subscriptable''))
      | Some cfg \<Rightarrow> (case out of Logging_ok \<Rightarrow> Inr cfg | Logging_raises e \<Rightarrow> Inl e))"

text \<open>
  \<open>__init__\<close>: no handler surrounds the two calls, so whatever they raise leaves the
  constructor. What the loader printed is returned beside the result.
\<close>

definition init_monitor ::
  "string \<Rightarrow> load_outcome \<Rightarrow> logging_outcome \<Rightarrow> (exn + monitor) \<times> event list" where
  "init_monitor f out lg =
     (case load_config f out of
        (Inl e, printed) \<Rightarrow> (Inl e, printed)
      | (Inr c, printed) \<Rightarrow>
          (case setup_logging c lg of
             Inl e \<Rightarrow> (Inl e, printed)
           | Inr cfg \<Rightarrow>
               (Inr \<lparr>config_file = f, config = cfg, alert_sent = False, trace = []\<rparr>,
                printed)))"

section \<open>Sampling\<close>

text \<open>
  What one call of \<open>get_system_stats\<close> reads from \<open>psutil\<close> and the clock. Byte
  counts are Python ints. \<open>r_loadavg\<close> is \<open>None\<close> where \<open>getloadavg\<close> is missing or
  raises \<open>OSError\<close>, and the load average is then the int \<open>0\<close>. \<open>r_boot_time\<close> is \<open>datetime.fromtimestamp(psutil.boot_time())\<close>;
  \<open>r_now_uptime\<close> and \<open>r_now_stamp\<close> are the two readings of \<open>datetime.now()\<close>.
\<close>

record psutil_readings =
  r_cpu_percent :: real
  r_cpu_count_logical :: "int option"
  r_cpu_count_physical :: "int option"
  r_memory_percent :: real
  r_memory_total :: int
  r_memory_used :: int
  r_memory_available :: int
  r_disk_total :: int
  r_disk_used :: int
  r_disk_free :: int
  r_loadavg :: "real option"
  r_bytes_sent :: int
  r_bytes_recv :: int
  r_packets_sent :: int
  r_packets_recv :: int
  r_boot_time :: datetime
  r_now_uptime :: datetime
  r_pids :: nat
  r_now_stamp :: datetime

datatype provider_outcome = Readings psutil_readings | Provider_raises exn

text \<open>
  The result is \<open>Inr None\<close> for the empty dict, \<open>Inr (Some s)\<close> for a snapshot and
  \<open>Inl e\<close> for an exception that \<open>except Exception\<close> does not catch.
\<close>

fun get_system_stats ::
  "pylib \<Rightarrow> provider_outcome \<Rightarrow> monitor \<Rightarrow> (exn + stats option) \<times> monitor" where
  "get_system_stats lib (Provider_raises e) m =
     (if is_Exception e
      then (Inr None, emit (Log_error (''Error collecting system stats: '' @ exn_str e)) m)
      else (Inl e, m))"
| "get_system_stats lib (Readings r) m =
     (if r_disk_total r = 0
      then (Inr None, emit (Log_error ''Error collecting system stats: division by zero'') m)
      else
        let load_avg = (case r_loadavg r of None \<Rightarrow> PyInt 0 | Some l \<Rightarrow> PyFloat l);
            uptime = datetime_sub (r_now_uptime r) (r_boot_time r)
        in (Inr (Some
             \<lparr>timestamp = strftime (r_now_stamp r),
              cpu = \<lparr>cpu_percent = r_cpu_percent r,
                     cpu_count_logical = r_cpu_count_logical r,
                     cpu_count_physical = r_cpu_count_physical r,
                     cpu_load_avg = py_round2 lib load_avg\<rparr>,
              memory = \<lparr>memory_percent = r_memory_percent r,
                        memory_total_gb = to_gb lib (r_memory_total r),
                        memory_used_gb = to_gb lib (r_memory_used r),
                        memory_available_gb = to_gb lib (r_memory_available r)\<rparr>,
              disk = \<lparr>disk_percent = used_percent lib (r_disk_used r) (r_disk_total r),
                      disk_total_gb = to_gb lib (r_disk_total r),
                      disk_used_gb = to_gb lib (r_disk_used r),
                      disk_free_gb = to_gb lib (r_disk_free r)\<rparr>,
              network = \<lparr>bytes_sent = r_bytes_sent r,
                         bytes_recv = r_bytes_recv r,
                         packets_sent = r_packets_sent r,
                         packets_recv = r_packets_recv r\<rparr>,
              system = \<lparr>uptime_days = days uptime,
                        uptime_hours = seconds uptime div 3600,
                        process_count = r_pids r,
                        boot_time = strftime (r_boot_time r)\<rparr>\<rparr>), m))"

section \<open>Threshold evaluation\<close>

definition check_thresholds :: "pylib \<Rightarrow> monitor \<Rightarrow> stats \<Rightarrow> string list" where
  "check_thresholds lib m s =
     (let alerts0 = [];
          th = thresholds (config m);
          alerts1 =
            (if cpu_percent (cpu s) > num_val (thr_cpu th)
             then alerts0 @
               [''CPU usage: '' @ format_1f (cpu_percent (cpu s)) @ ''% ''
                  @ ''(threshold: '' @ str_num lib (thr_cpu th) @ ''%)'']
             else alerts0);
          alerts2 =
            (if memory_percent (memory s) > num_val (thr_memory th)
             then alerts1 @
               [''Memory usage: '' @ format_1f (memory_percent (memory s)) @ ''% ''
                  @ ''(threshold: '' @ str_num lib (thr_memory th) @ ''%) - ''
                  @ format_1f (memory_used_gb (memory s)) @ ''GB used'']
             else alerts1);
          alerts3 =
            (if disk_percent (disk s) > num_val (thr_disk th)
             then alerts2 @
               [''Disk usage: '' @ format_1f (disk_percent (disk s)) @ ''% ''
                  @ ''(threshold: '' @ str_num lib (thr_disk th) @ ''%) - ''
                  @ format_1f (disk_used_gb (disk s)) @ ''GB used'']
             else alerts2)
      in alerts3)"

section \<open>Notification\<close>

text \<open>
  The SMTP session is five calls in a row: \<open>smtplib.SMTP(...)\<close>, \<open>starttls\<close>, \<open>login\<close>,
  \<open>send_message\<close> and \<open>quit\<close>. Either all of them return, or one of them raises and
  the later ones are not made. A session that raises at \<open>Quit\<close> has sent the message.
\<close>

datatype smtp_step = Connect | Starttls | Login | Send_message | Quit

datatype smtp_outcome = Smtp_ok | Smtp_raises smtp_step exn

definition send_alert ::
  "smtp_outcome \<Rightarrow> string list \<Rightarrow> stats \<Rightarrow> monitor \<Rightarrow> (exn + unit) \<times> monitor" where
  "send_alert smtp_out alerts s m =
     (if alerts = [] \<or> \<not> enabled (email (config m)) then (Inr (), m)
      else if alert_sent m then (Inr (), m)
      else
        let m1 = emit (Dispatch alerts s) m
        in (case smtp_out of
              Smtp_ok \<Rightarrow>
                (Inr (), (emit (Log_info ''Alert email sent successfully'')
                            (emit (Sent alerts s) m1))
                           \<lparr>alert_sent := True\<rparr>)
            | Smtp_raises step e \<Rightarrow>
                let m2 = (if step = Quit then emit (Sent alerts s) m1 else m1)
                in if is_Exception e
                   then (Inr (),
                         emit (Log_error (''Failed to send email alert: '' @ exn_str e)) m2)
                   else (Inl e, m2)))"

definition display_stats :: "stats \<Rightarrow> string list \<Rightarrow> monitor \<Rightarrow> monitor" where
  "display_stats s alerts m = emit (Display s alerts) m"

section \<open>One cycle and the continuous loop\<close>

datatype sleep_outcome = Slept | Sleep_raises exn

record cycle_env =
  provider :: provider_outcome
  smtp :: smtp_outcome
  sleep :: sleep_outcome

definition run_once :: "pylib \<Rightarrow> cycle_env \<Rightarrow> monitor \<Rightarrow> (exn + stats option) \<times> monitor" where
  "run_once lib env m =
     (case get_system_stats lib (provider env) m of
        (Inl e, m1) \<Rightarrow> (Inl e, m1)
      | (Inr None, m1) \<Rightarrow> (Inr None, m1)
      | (Inr (Some s), m1) \<Rightarrow>
          let alerts = check_thresholds lib m1 s;
              m2 = display_stats s alerts m1
          in if alerts \<noteq> []
             then
               let m3 = emit (Log_warning (''System alerts triggered: ''
                          @ str_nat (length alerts) @ '' threshold(s) exceeded'')) m2
               in (case send_alert (smtp env) alerts s m3 of
                     (Inl e, m4) \<Rightarrow> (Inl e, m4)
                   | (Inr _, m4) \<Rightarrow> (Inr (Some s), m4))
             else (Inr (Some s), m2))"

text \<open>\<open>time.sleep\<close> rejects a negative length and can be interrupted.\<close>

definition time_sleep :: "int \<Rightarrow> sleep_outcome \<Rightarrow> exn option" where
  "time_sleep secs out =
     (if secs < 0 then Some (ValueError ''sleep length must be non-negative'')
      else case out of Slept \<Rightarrow> None | Sleep_raises e \<Rightarrow> Some e)"

text \<open>The line logged after a cycle that produced a snapshot (\<open>if stats:\<close>).\<close>

definition log_basic_stats :: "stats option \<Rightarrow> monitor \<Rightarrow> monitor" where
  "log_basic_stats st m =
     (case st of
        None \<Rightarrow> m
      | Some s \<Rightarrow>
          emit (Log_info (''CPU: '' @ format_1f (cpu_percent (cpu s)) @ ''% | ''
            @ ''Memory: '' @ format_1f (memory_percent (memory s)) @ ''% | ''
            @ ''Disk: '' @ format_1f (disk_percent (disk s)) @ ''%'')) m)"

text \<open>
  The body of \<open>while True\<close>, run on the outcomes of successive cycles. The loop has no
  exit of its own: \<open>None\<close> says that it is still running when the listed cycles are
  over, \<open>Some e\<close> that \<open>e\<close> left it.
\<close>

fun monitoring_loop :: "pylib \<Rightarrow> cycle_env list \<Rightarrow> monitor \<Rightarrow> exn option \<times> monitor" where
  "monitoring_loop lib [] m = (None, m)"
| "monitoring_loop lib (env # envs) m =
     (case run_once lib env m of
        (Inl e, m1) \<Rightarrow> (Some e, m1)
      | (Inr st, m1) \<Rightarrow>
          let m2 = log_basic_stats st m1
          in (case time_sleep (check_interval (config m2)) (sleep env) of
                Some e \<Rightarrow> (Some e, m2)
              | None \<Rightarrow> monitoring_loop lib envs m2))"

datatype run_result = Running | Returned | Raised exn

definition run_monitoring :: "pylib \<Rightarrow> cycle_env list \<Rightarrow> monitor \<Rightarrow> run_result \<times> monitor" where
  "run_monitoring lib envs m =
     (let th = thresholds (config m);
          m0 = emit (Log_info (''Thresholds - CPU: '' @ str_num lib (thr_cpu th) @ ''%, ''
                  @ ''Memory: '' @ str_num lib (thr_memory th) @ ''%, ''
                  @ ''Disk: '' @ str_num lib (thr_disk th) @ ''%''))
                (emit (Log_info (''Monitoring interval: ''
                    @ str_int (check_interval (config m)) @ '' seconds''))
                  (emit (Log_info ''Starting system health monitoring...'') m))
      in (case monitoring_loop lib envs m0 of
            (None, m1) \<Rightarrow> (Running, m1)
          | (Some e, m1) \<Rightarrow>
              if e = KeyboardInterrupt
              then (Returned,
                    emit (Print (CHR 0x0A # '' System monitoring stopped.''))
                      (emit (Log_info ''Monitoring stopped by user.'') m1))
              else (Raised e, emit (Log_error (''Monitoring error: '' @ exn_str e)) m1)))"

section \<open>Persisting a snapshot as JSON\<close>

text \<open>
  \<open>save_stats_json\<close> hands the snapshot to \<open>json.dump\<close> with \<open>indent=2\<close>. The printer
  and the parser of the \<open>json\<close> module are modelled after its documentation, for the
  values that occur in a snapshot: \<open>None\<close>, ints, finite floats, strings, and dicts
  with string keys, a dict being the list of its members in order. Lists and booleans
  do not occur in a snapshot and are left out of both. A string is a list of code
  points below 256.
\<close>

datatype json = JNull | JInt int | JFloat real | JStr string | JObj members
and members = MNil | MCons string json members

subsection \<open>\<open>json.dumps\<close>\<close>

text \<open>
  With \<open>ensure_ascii\<close>, a character outside \<open>' '\<close> to \<open>'~'\<close>, a double quote and a
  backslash are escaped, by the two-character escapes where there is one and by a
  backslash, \<open>u\<close> and four hexadecimal digits otherwise. With \<open>indent=2\<close>, every member of a non-empty dict starts a line that is
  indented by two spaces for each level, members are separated by a comma and a key is
  followed by a colon and a space.
\<close>

definition hex_char :: "nat \<Rightarrow> char" where
  "hex_char d = ''0123456789abcdef'' ! d"

definition escape_char :: "char \<Rightarrow> string" where
  "escape_char c =
     (if c = CHR 0x22 then [CHR 0x5C, CHR 0x22]
      else if c = CHR 0x5C then [CHR 0x5C, CHR 0x5C]
      else if c = CHR 0x0A then [CHR 0x5C, CHR ''n'']
      else if c = CHR 0x0D then [CHR 0x5C, CHR ''r'']
      else if c = CHR 0x09 then [CHR 0x5C, CHR ''t'']
      else if c = CHR 0x0C then [CHR 0x5C, CHR ''f'']
      else if c = CHR 0x08 then [CHR 0x5C, CHR ''b'']
      else if 32 \<le> (of_char c :: nat) \<and> (of_char c :: nat) \<le> 126 then [c]
      else [CHR 0x5C, CHR ''u'', CHR ''0'', CHR ''0'',
            hex_char ((of_char c :: nat) div 16), hex_char ((of_char c :: nat) mod 16)])"

definition quote :: "string \<Rightarrow> string" where
  "quote s = CHR 0x22 # concat (map escape_char s) @ [CHR 0x22]"

definition nl :: "nat \<Rightarrow> string" where
  "nl k = CHR 0x0A # replicate (2 * k) CHR '' ''"

fun dumps_at :: "pylib \<Rightarrow> nat \<Rightarrow> json \<Rightarrow> string"
  and dumps_members :: "pylib \<Rightarrow> nat \<Rightarrow> members \<Rightarrow> string" where
  "dumps_at lib l JNull = ''null''"
| "dumps_at lib l (JInt i) = str_int i"
| "dumps_at lib l (JFloat x) = float_str lib x"
| "dumps_at lib l (JStr s) = quote s"
| "dumps_at lib l (JObj MNil) = ''{}''"
| "dumps_at lib l (JObj (MCons k v ms)) =
     ''{'' @ nl (Suc l) @ dumps_members lib (Suc l) (MCons k v ms) @ nl l @ ''}''"
| "dumps_members lib l MNil = []"
| "dumps_members lib l (MCons k v ms) =
     quote k @ '': '' @ dumps_at lib l v
       @ (case ms of MNil \<Rightarrow> [] | MCons _ _ _ \<Rightarrow> '','' @ nl l @ dumps_members lib l ms)"

definition json_dumps :: "pylib \<Rightarrow> json \<Rightarrow> string" where
  "json_dumps lib v = dumps_at lib 0 v"

subsection \<open>\<open>json.loads\<close>\<close>

text \<open>
  The scanner skips white space between tokens, reads a string up to its closing quote
  and undoes the escapes, and reads a number as the longest run of number characters:
  an int when the run has neither a point nor an exponent, a float otherwise. In a
  document that the scanner accepts, a number is followed by white space, a comma or a
  closing bracket, so that the longest run is the number. Of two members with the same
  key the later value is kept, at the place of the first. The recursion is bounded by
  a fuel, for which \<open>json_loads\<close> takes the length of the text; the round trip below
  shows that it suffices for every printed document.
\<close>

definition is_ws :: "char \<Rightarrow> bool" where
  "is_ws c = (c = CHR '' '' \<or> c = CHR 0x0A \<or> c = CHR 0x0D \<or> c = CHR 0x09)"

definition skip_ws :: "string \<Rightarrow> string" where
  "skip_ws s = dropWhile is_ws s"

definition hex_val :: "char \<Rightarrow> nat option" where
  "hex_val c =
     (let n = (of_char c :: nat)
      in if 48 \<le> n \<and> n \<le> 57 then Some (n - 48)
         else if 97 \<le> n \<and> n \<le> 102 then Some (n - 87)
         else if 65 \<le> n \<and> n \<le> 70 then Some (n - 55)
         else None)"

definition unescape :: "char \<Rightarrow> char option" where
  "unescape e =
     (if e = CHR 0x22 then Some (CHR 0x22)
      else if e = CHR 0x5C then Some (CHR 0x5C)
      else if e = CHR ''/'' then Some (CHR ''/'')
      else if e = CHR ''b'' then Some (CHR 0x08)
      else if e = CHR ''f'' then Some (CHR 0x0C)
      else if e = CHR ''n'' then Some (CHR 0x0A)
      else if e = CHR ''r'' then Some (CHR 0x0D)
      else if e = CHR ''t'' then Some (CHR 0x09)
      else None)"

definition cons_result :: "char \<Rightarrow> (string \<times> string) option \<Rightarrow> (string \<times> string) option" where
  "cons_result c res = (case res of None \<Rightarrow> None | Some (t, r) \<Rightarrow> Some (c # t, r))"

fun scan_string :: "string \<Rightarrow> (string \<times> string) option" where
  "scan_string [] = None"
| "scan_string (c # cs) =
     (if c = CHR 0x22 then Some ([], cs)
      else if c = CHR 0x5C then
        (case cs of
           [] \<Rightarrow> None
         | e # r \<Rightarrow>
             if e = CHR ''u'' then
               (case r of
                  h3 # h2 # h1 # h0 # r' \<Rightarrow>
                    (case (hex_val h3, hex_val h2, hex_val h1, hex_val h0) of
                       (Some x3, Some x2, Some x1, Some x0) \<Rightarrow>
                         (let n = ((x3 * 16 + x2) * 16 + x1) * 16 + x0
                          in if n < 256 then cons_result (char_of n) (scan_string r') else None)
                     | _ \<Rightarrow> None)
                | _ \<Rightarrow> None)
             else
               (case unescape e of
                  None \<Rightarrow> None
                | Some ch \<Rightarrow> cons_result ch (scan_string r)))
      else if (of_char c :: nat) < 32 then None
      else cons_result c (scan_string cs))"

definition is_digit :: "char \<Rightarrow> bool" where
  "is_digit c = (48 \<le> (of_char c :: nat) \<and> (of_char c :: nat) \<le> 57)"

definition digit_val :: "char \<Rightarrow> nat" where
  "digit_val c = of_char c - 48"

definition nat_of_str :: "string \<Rightarrow> nat option" where
  "nat_of_str ds =
     (if ds = [] \<or> \<not> list_all is_digit ds \<or> (1 < length ds \<and> hd ds = CHR ''0'') then None
      else Some (foldl (\<lambda>a c. 10 * a + digit_val c) 0 ds))"

definition int_of_str :: "string \<Rightarrow> int option" where
  "int_of_str s =
     (case s of
        [] \<Rightarrow> None
      | c # cs \<Rightarrow>
          if c = CHR ''-'' then map_option (\<lambda>n. - int n) (nat_of_str cs)
          else map_option int (nat_of_str s))"

definition is_num_char :: "char \<Rightarrow> bool" where
  "is_num_char c = (is_digit c \<or> c \<in> set ''+-.eE'')"

definition is_float_mark :: "char \<Rightarrow> bool" where
  "is_float_mark c = (c \<in> set ''.eE'')"

definition scan_number :: "pylib \<Rightarrow> string \<Rightarrow> (json \<times> string) option" where
  "scan_number lib s =
     (let tok = takeWhile is_num_char s; rest = dropWhile is_num_char s
      in if list_ex is_float_mark tok
         then map_option (\<lambda>x. (JFloat x, rest)) (float_of_str lib tok)
         else map_option (\<lambda>i. (JInt i, rest)) (int_of_str tok))"

fun dict_set :: "string \<Rightarrow> json \<Rightarrow> members \<Rightarrow> members" where
  "dict_set k v MNil = MCons k v MNil"
| "dict_set k v (MCons k' v' ms) =
     (if k = k' then MCons k' v ms else MCons k' v' (dict_set k v ms))"

fun dict_of :: "members \<Rightarrow> members \<Rightarrow> members" where
  "dict_of acc MNil = acc"
| "dict_of acc (MCons k v ms) = dict_of (dict_set k v acc) ms"

fun parse_value :: "pylib \<Rightarrow> nat \<Rightarrow> string \<Rightarrow> (json \<times> string) option"
  and parse_members :: "pylib \<Rightarrow> nat \<Rightarrow> string \<Rightarrow> (members \<times> string) option" where
  "parse_value lib 0 s = None"
| "parse_value lib (Suc n) s =
     (case skip_ws s of
        [] \<Rightarrow> None
      | c # cs \<Rightarrow>
          if c = CHR ''{'' then
            (case skip_ws cs of
               [] \<Rightarrow> None
             | d # r \<Rightarrow>
                 if d = CHR ''}'' then Some (JObj MNil, r)
                 else (case parse_members lib n (d # r) of
                         None \<Rightarrow> None
                       | Some (ms, r') \<Rightarrow> Some (JObj (dict_of MNil ms), r')))
          else if c = CHR 0x22 then
            (case scan_string cs of None \<Rightarrow> None | Some (t, r) \<Rightarrow> Some (JStr t, r))
          else if c = CHR ''n'' then
            (if take 3 cs = ''ull'' then Some (JNull, drop 3 cs) else None)
          else if is_digit c \<or> c = CHR ''-'' then scan_number lib (c # cs)
          else None)"
| "parse_members lib 0 s = None"
| "parse_members lib (Suc n) s =
     (case s of
        [] \<Rightarrow> None
      | q # cs \<Rightarrow>
          if q \<noteq> CHR 0x22 then None
          else
            (case scan_string cs of
               None \<Rightarrow> None
             | Some (k, r) \<Rightarrow>
                 (case skip_ws r of
                    [] \<Rightarrow> None
                  | c # r1 \<Rightarrow>
                      if c \<noteq> CHR '':'' then None
                      else
                        (case parse_value lib n r1 of
                           None \<Rightarrow> None
                         | Some (v, r2) \<Rightarrow>
                             (case skip_ws r2 of
                                [] \<Rightarrow> None
                              | d # r3 \<Rightarrow>
                                  if d = CHR ''}'' then Some (MCons k v MNil, r3)
                                  else if d = CHR '','' then
                                    (case parse_members lib n (skip_ws r3) of
                                       None \<Rightarrow> None
                                     | Some (ms, r4) \<Rightarrow> Some (MCons k v ms, r4))
                                  else None)))))"

definition json_loads :: "pylib \<Rightarrow> string \<Rightarrow> json option" where
  "json_loads lib s =
     (case parse_value lib (Suc (length s)) s of
        None \<Rightarrow> None
      | Some (v, r) \<Rightarrow> if skip_ws r = [] then Some v else None)"


subsection \<open>The document of a snapshot and \<open>save_stats_json\<close>\<close>

fun json_of_opt_int :: "int option \<Rightarrow> json" where
  "json_of_opt_int None = JNull"
| "json_of_opt_int (Some i) = JInt i"

fun json_of_num :: "pynum \<Rightarrow> json" where
  "json_of_num (PyInt i) = JInt i"
| "json_of_num (PyFloat x) = JFloat x"

definition stats_doc :: "pylib \<Rightarrow> stats \<Rightarrow> json" where
  "stats_doc lib s =
     JObj
      (MCons ''timestamp'' (JStr (strftime_text lib (timestamp s)))
      (MCons ''cpu'' (JObj
         (MCons ''percent'' (JFloat (cpu_percent (cpu s)))
         (MCons ''count_logical'' (json_of_opt_int (cpu_count_logical (cpu s)))
         (MCons ''count_physical'' (json_of_opt_int (cpu_count_physical (cpu s)))
         (MCons ''load_avg'' (json_of_num (cpu_load_avg (cpu s))) MNil)))))
      (MCons ''memory'' (JObj
         (MCons ''percent'' (JFloat (memory_percent (memory s)))
         (MCons ''total_gb'' (JFloat (memory_total_gb (memory s)))
         (MCons ''used_gb'' (JFloat (memory_used_gb (memory s)))
         (MCons ''available_gb'' (JFloat (memory_available_gb (memory s))) MNil)))))
      (MCons ''disk'' (JObj
         (MCons ''percent'' (JFloat (disk_percent (disk s)))
         (MCons ''total_gb'' (JFloat (disk_total_gb (disk s)))
         (MCons ''used_gb'' (JFloat (disk_used_gb (disk s)))
         (MCons ''free_gb'' (JFloat (disk_free_gb (disk s))) MNil)))))
      (MCons ''network'' (JObj
         (MCons ''bytes_sent'' (JInt (bytes_sent (network s)))
         (MCons ''bytes_recv'' (JInt (bytes_recv (network s)))
         (MCons ''packets_sent'' (JInt (packets_sent (network s)))
         (MCons ''packets_recv'' (JInt (packets_recv (network s))) MNil)))))
      (MCons ''system'' (JObj
         (MCons ''uptime_days'' (JInt (uptime_days (system s)))
         (MCons ''uptime_hours'' (JInt (uptime_hours (system s)))
         (MCons ''process_count'' (JInt (int (process_count (system s))))
         (MCons ''boot_time'' (JStr (strftime_text lib (boot_time (system s)))) MNil)))))
       MNil))))))"

text \<open>
  Opening the file and writing to it either succeeds or raises. \<open>default_name\<close> is the
  name derived from the time of the call, used when no name is given.
\<close>

datatype write_outcome = Write_ok | Write_raises exn

definition save_stats_json ::
  "pylib \<Rightarrow> stats \<Rightarrow> string option \<Rightarrow> string \<Rightarrow> write_outcome \<Rightarrow> monitor
     \<Rightarrow> (exn + unit) \<times> monitor" where
  "save_stats_json lib s filename default_name out m =
     (let name = (case filename of
                    None \<Rightarrow> default_name
                  | Some f \<Rightarrow> if f = [] then default_name else f)
      in case out of
           Write_ok \<Rightarrow>
             (Inr (), emit (Log_info (''Statistics saved to '' @ name))
                        (emit (Written name (json_dumps lib (stats_doc lib s))) m))
         | Write_raises e \<Rightarrow>
             if is_Exception e
             then (Inr (), emit (Log_error (''Failed to save statistics: '' @ exn_str e)) m)
             else (Inl e, m))"

section \<open>Observations on alerts and traces\<close>

text \<open>
  An alert is a string; the metric it reports is read off its leading label.
\<close>

datatype metric = CPU | Memory | Disk

definition alert_metric :: "string \<Rightarrow> metric option" where
  "alert_metric a =
     (if take 11 a = ''CPU usage: '' then Some CPU
      else if take 14 a = ''Memory usage: '' then Some Memory
      else if take 12 a = ''Disk usage: '' then Some Disk
      else None)"

fun metric_percent :: "metric \<Rightarrow> stats \<Rightarrow> real" where
  "metric_percent CPU s = cpu_percent (cpu s)"
| "metric_percent Memory s = memory_percent (memory s)"
| "metric_percent Disk s = disk_percent (disk s)"

fun metric_threshold :: "metric \<Rightarrow> threshold_config \<Rightarrow> pynum" where
  "metric_threshold CPU th = thr_cpu th"
| "metric_threshold Memory th = thr_memory th"
| "metric_threshold Disk th = thr_disk th"

definition exceeds :: "monitor \<Rightarrow> stats \<Rightarrow> metric \<Rightarrow> bool" where
  "exceeds m s k = (num_val (metric_threshold k (thresholds (config m))) < metric_percent k s)"

text \<open>
  A dispatch attempt is a \<open>Dispatch\<close> event, a message handed to the mail transport is
  a \<open>Sent\<close> event, and a completed session is the line that \<open>send_alert\<close> logs after
  \<open>quit\<close> has returned.
\<close>

fun is_dispatch :: "event \<Rightarrow> bool" where
  "is_dispatch (Dispatch a s) = True"
| "is_dispatch _ = False"

definition dispatches :: "event list \<Rightarrow> nat" where
  "dispatches tr = length (filter is_dispatch tr)"

fun is_sent :: "event \<Rightarrow> bool" where
  "is_sent (Log_info s) = (s = ''Alert email sent successfully'')"
| "is_sent _ = False"

definition successes :: "event list \<Rightarrow> nat" where
  "successes tr = length (filter is_sent tr)"

fun is_delivery :: "event \<Rightarrow> bool" where
  "is_delivery (Sent a s) = True"
| "is_delivery _ = False"

definition deliveries :: "event list \<Rightarrow> nat" where
  "deliveries tr = length (filter is_delivery tr)"

fun is_display :: "event \<Rightarrow> bool" where
  "is_display (Display s a) = True"
| "is_display _ = False"

definition displays :: "event list \<Rightarrow> nat" where
  "displays tr = length (filter is_display tr)"

text \<open>
  What every step of a run preserves: the configuration, a set flag, the number of
  completed sessions plus one while the flag is clear, and the numbers of dispatch
  attempts and of sent messages once the flag is set or while email is disabled.
\<close>

definition pending :: "monitor \<Rightarrow> nat" where
  "pending m = successes (trace m) + (if alert_sent m then 0 else 1)"

definition frame :: "monitor \<Rightarrow> monitor \<Rightarrow> bool" where
  "frame m m1 \<longleftrightarrow>
     config m1 = config m \<and> (alert_sent m \<longrightarrow> alert_sent m1) \<and> pending m1 = pending m
     \<and> (alert_sent m \<or> \<not> enabled (email (config m))
          \<longrightarrow> dispatches (trace m1) = dispatches (trace m)
              \<and> deliveries (trace m1) = deliveries (trace m))"

section \<open>Notions for the round trip of a document\<close>

text \<open>
  The keys of a dict are distinct. A float of a document can be read back when
  \<open>float_str\<close> prints it as a number token with a point or an exponent that
  \<open>float_of_str\<close> reads as the same float, which is what Python documents for
  \<open>repr\<close> and \<open>float\<close> on finite floats.
\<close>

fun keys :: "members \<Rightarrow> string list" where
  "keys MNil = []"
| "keys (MCons k v ms) = k # keys ms"

fun wf_json :: "json \<Rightarrow> bool" and wf_members :: "members \<Rightarrow> bool" where
  "wf_json (JObj ms) = (distinct (keys ms) \<and> wf_members ms)"
| "wf_json _ = True"
| "wf_members MNil = True"
| "wf_members (MCons k v ms) = (wf_json v \<and> wf_members ms)"

definition float_token_ok :: "pylib \<Rightarrow> real \<Rightarrow> bool" where
  "float_token_ok lib x =
     (let t = float_str lib x
      in t \<noteq> [] \<and> (is_digit (hd t) \<or> hd t = CHR ''-'') \<and> list_all is_num_char t
         \<and> list_ex is_float_mark t \<and> float_of_str lib t = Some x)"

fun floats_ok :: "pylib \<Rightarrow> json \<Rightarrow> bool" and mfloats_ok :: "pylib \<Rightarrow> members \<Rightarrow> bool" where
  "floats_ok lib (JFloat x) = float_token_ok lib x"
| "floats_ok lib (JObj ms) = mfloats_ok lib ms"
| "floats_ok lib _ = True"
| "mfloats_ok lib MNil = True"
| "mfloats_ok lib (MCons k v ms) = (floats_ok lib v \<and> mfloats_ok lib ms)"

fun jfuel :: "json \<Rightarrow> nat" and mfuel :: "members \<Rightarrow> nat" where
  "jfuel (JObj ms) = Suc (mfuel ms)"
| "jfuel _ = Suc 0"
| "mfuel MNil = 0"
| "mfuel (MCons k v ms) = Suc (max (jfuel v) (mfuel ms))"

definition delim :: "string \<Rightarrow> bool" where
  "delim r = (case r of [] \<Rightarrow> True | c # _ \<Rightarrow> \<not> is_num_char c)"


fun mappend :: "members \<Rightarrow> members \<Rightarrow> members" where
  "mappend MNil ms = ms"
| "mappend (MCons k v ms') ms = MCons k v (mappend ms' ms)"


section \<open>Concrete inputs\<close>

text \<open>
  An instance of the library parameter for the examples below. It agrees with Python on
  the values used there: floats that are whole numbers or whole numbers and a half,
  byte counts that are whole GiB, a disk that is half full, and the two instants of
  \<open>hot_readings\<close> on a clock that counts from the first second of 1970.
\<close>

definition example_float_of_str :: "string \<Rightarrow> real option" where
  "example_float_of_str s =
     (let ip = takeWhile is_digit s; fp = dropWhile is_digit s
      in case fp of
           [p, d] \<Rightarrow>
             if p = CHR ''.'' \<and> is_digit d
             then map_option (\<lambda>a. real a + real (digit_val d) / 10) (nat_of_str ip)
             else None
         | _ \<Rightarrow> None)"

definition example_strftime_text :: "int \<Rightarrow> string" where
  "example_strftime_text t =
     (if t = 1700279000 then ''2023-11-18 03:43:20''
      else if t = 1700000000 then ''2023-11-14 22:13:20''
      else [])"

definition example_lib :: pylib where
  "example_lib =
     \<lparr>float_str = format_1f,
      float_of_str = example_float_of_str,
      to_gb = (\<lambda>b. real_of_int b / 1073741824),
      used_percent = (\<lambda>u t. real_of_int u / real_of_int t * 100),
      round2 = (\<lambda>x. x),
      strftime_text = example_strftime_text\<rparr>"

text \<open>The doubles written \<open>92.3\<close> and \<open>80.1\<close> in Python.\<close>

definition double_92_3 :: real where
  "double_92_3 = 6495035087598387 / 70368744177664"

definition double_80_1 :: real where
  "double_80_1 = 2818268204315443 / 35184372088832"

definition example_stats :: "real \<Rightarrow> real \<Rightarrow> real \<Rightarrow> stats" where
  "example_stats c mem d =
     \<lparr>timestamp = 1700279000,
      cpu = \<lparr>cpu_percent = c, cpu_count_logical = Some 8, cpu_count_physical = Some 4,
             cpu_load_avg = PyFloat (1 / 2)\<rparr>,
      memory = \<lparr>memory_percent = mem, memory_total_gb = 16, memory_used_gb = 8,
                memory_available_gb = 8\<rparr>,
      disk = \<lparr>disk_percent = d, disk_total_gb = 100, disk_used_gb = 50, disk_free_gb = 50\<rparr>,
      network = \<lparr>bytes_sent = 1000, bytes_recv = 2000, packets_sent = 10, packets_recv = 20\<rparr>,
      system = \<lparr>uptime_days = 3, uptime_hours = 5, process_count = 200,
                boot_time = 1700000000\<rparr>\<rparr>"

text \<open>The default configuration with email switched on, in a fresh monitor.\<close>

definition scenario_monitor :: monitor where
  "scenario_monitor =
     \<lparr>config_file = ''config.yaml'',
      config = get_default_config\<lparr>email := (email get_default_config)\<lparr>enabled := True\<rparr>\<rparr>,
      alert_sent = False, trace = []\<rparr>"

definition default_monitor :: monitor where
  "default_monitor =
     \<lparr>config_file = ''config.yaml'', config = get_default_config,
      alert_sent = False, trace = []\<rparr>"

text \<open>
  Readings of a host at 92.3 percent CPU, booted 3 days, 5 hours and 30 minutes before
  the sample.
\<close>

definition hot_readings :: psutil_readings where
  "hot_readings =
     \<lparr>r_cpu_percent = double_92_3, r_cpu_count_logical = Some 8,
      r_cpu_count_physical = Some 4, r_memory_percent = 60,
      r_memory_total = 17179869184, r_memory_used = 8589934592,
      r_memory_available = 8589934592,
      r_disk_total = 107374182400, r_disk_used = 53687091200, r_disk_free = 53687091200,
      r_loadavg = Some (1 / 2),
      r_bytes_sent = 1000, r_bytes_recv = 2000, r_packets_sent = 10, r_packets_recv = 20,
      r_boot_time = 1700000000000000, r_now_uptime = 1700279000000000,
      r_pids = 200, r_now_stamp = 1700279000000000\<rparr>"

definition cycle :: "provider_outcome \<Rightarrow> smtp_outcome \<Rightarrow> sleep_outcome \<Rightarrow> cycle_env" where
  "cycle p s z = \<lparr>provider = p, smtp = s, sleep = z\<rparr>"

text \<open>
  The snapshot and the alert list of a cycle on \<open>hot_readings\<close> under the default
  thresholds, and three kinds of cycle: one whose SMTP session fails, one whose session
  runs through, and one whose sampling fails.
\<close>

definition hot_stats :: stats where
  "hot_stats = example_stats double_92_3 60 50"

definition hot_alerts_list :: "string list" where
  "hot_alerts_list = [''CPU usage: 92.3% (threshold: 80%)'']"


definition sending_cycle :: cycle_env where
  "sending_cycle = cycle (Readings hot_readings) Smtp_ok Slept"

definition blind_cycle :: cycle_env where
  "blind_cycle = cycle (Provider_raises (OtherException ''sensor failure'')) Smtp_ok Slept"

section \<open>Basic facts\<close>

lemma emit_simps [simp]:
  "trace (emit e m) = trace m @ [e]"
  "config (emit e m) = config m"
  "alert_sent (emit e m) = alert_sent m"
  "config_file (emit e m) = config_file m"
  by (simp_all add: emit_def)

lemma dispatches_simps [simp]:
  "dispatches [] = 0"
  "dispatches (e # tr) = (if is_dispatch e then 1 else 0) + dispatches tr"
  "dispatches (tr @ tr') = dispatches tr + dispatches tr'"
  by (simp_all add: dispatches_def)

lemma deliveries_simps [simp]:
  "deliveries [] = 0"
  "deliveries (e # tr) = (if is_delivery e then 1 else 0) + deliveries tr"
  "deliveries (tr @ tr') = deliveries tr + deliveries tr'"
  by (simp_all add: deliveries_def)

lemma successes_simps [simp]:
  "successes [] = 0"
  "successes (e # tr) = (if is_sent e then 1 else 0) + successes tr"
  "successes (tr @ tr') = successes tr + successes tr'"
  by (simp_all add: successes_def)

lemma displays_simps [simp]:
  "displays [] = 0"
  "displays (e # tr) = (if is_display e then 1 else 0) + displays tr"
  "displays (tr @ tr') = displays tr + displays tr'"
  by (simp_all add: displays_def)

lemma frame_refl: "frame m m"
  by (simp add: frame_def)

lemma frame_trans: "frame m m1 \<Longrightarrow> frame m1 m2 \<Longrightarrow> frame m m2"
  unfolding frame_def by (elim conjE, intro conjI) simp_all

lemma frame_emit:
  "\<not> is_dispatch e \<Longrightarrow> \<not> is_sent e \<Longrightarrow> \<not> is_delivery e \<Longrightarrow> frame m (emit e m)"
  by (simp add: frame_def pending_def)

lemma get_system_stats_frame:
  assumes "get_system_stats lib p m = (r, m1)"
  shows "frame m m1"
proof (cases p)
  case (Readings x)
  with assms show ?thesis
    by (cases "r_disk_total x = 0") (auto simp: Let_def frame_refl intro!: frame_emit)
next
  case (Provider_raises e)
  with assms show ?thesis
    by (cases "is_Exception e") (auto simp: frame_refl intro!: frame_emit)
qed

lemma send_alert_frame:
  assumes "send_alert out alerts s m = (r, m1)"
  shows "frame m m1"
  using assms
  by (auto simp: send_alert_def Let_def frame_def pending_def
           split: if_splits smtp_outcome.splits)

lemma display_stats_frame: "frame m (display_stats s alerts m)"
  by (simp add: display_stats_def frame_emit)

lemma run_once_frame:
  assumes "run_once lib env m = (r, m1)"
  shows "frame m m1"
proof -
  obtain g m0 where g: "get_system_stats lib (provider env) m = (g, m0)"
    by (cases "get_system_stats lib (provider env) m")
  have f0: "frame m m0" by (rule get_system_stats_frame [OF g])
  show ?thesis
  proof (cases g)
    case (Inl e)
    with g assms have "m1 = m0" by (simp add: run_once_def)
    with f0 show ?thesis by simp
  next
    case (Inr so)
    show ?thesis
    proof (cases so)
      case None
      with Inr g assms have "m1 = m0" by (simp add: run_once_def)
      with f0 show ?thesis by simp
    next
      case (Some s)
      let ?a = "check_thresholds lib m0 s"
      let ?m2 = "display_stats s ?a m0"
      have f1: "frame m0 ?m2" by (rule display_stats_frame)
      show ?thesis
      proof (cases "?a = []")
        case True
        with Some Inr g assms have "m1 = ?m2" by (simp add: run_once_def Let_def)
        with f0 f1 show ?thesis by (auto intro: frame_trans)
      next
        case False
        let ?m3 = "emit (Log_warning (''System alerts triggered: ''
            @ str_nat (length ?a) @ '' threshold(s) exceeded'')) ?m2"
        have f2: "frame ?m2 ?m3" by (rule frame_emit) simp_all
        obtain q m4 where q: "send_alert (smtp env) ?a s ?m3 = (q, m4)"
          by (cases "send_alert (smtp env) ?a s ?m3")
        have f3: "frame ?m3 m4" by (rule send_alert_frame [OF q])
        from False Some Inr g assms q have "m1 = m4"
          by (cases q) (simp_all add: run_once_def Let_def)
        with f0 f1 f2 f3 show ?thesis by (blast intro: frame_trans)
      qed
    qed
  qed
qed

lemma log_basic_stats_frame: "frame m (log_basic_stats st m)"
  by (cases st) (simp_all add: log_basic_stats_def frame_refl frame_emit)

lemma monitoring_loop_frame:
  "monitoring_loop lib envs m = (r, m1) \<Longrightarrow> frame m m1"
proof (induction envs arbitrary: m)
  case Nil
  then show ?case by (simp add: frame_refl)
next
  case (Cons env envs)
  obtain g m0 where g: "run_once lib env m = (g, m0)"
    by (cases "run_once lib env m")
  have f0: "frame m m0" by (rule run_once_frame [OF g])
  show ?case
  proof (cases g)
    case (Inl e)
    with g Cons.prems have "m1 = m0" by simp
    with f0 show ?thesis by simp
  next
    case (Inr st)
    let ?m2 = "log_basic_stats st m0"
    have f1: "frame m0 ?m2" by (rule log_basic_stats_frame)
    show ?thesis
    proof (cases "time_sleep (check_interval (config ?m2)) (sleep env)")
      case None
      with Inr g Cons.prems have "monitoring_loop lib envs ?m2 = (r, m1)"
        by (simp add: Let_def)
      from Cons.IH [OF this] f0 f1 show ?thesis by (blast intro: frame_trans)
    next
      case (Some e)
      with Inr g Cons.prems have "m1 = ?m2" by (simp add: Let_def)
      with f0 f1 show ?thesis by (blast intro: frame_trans)
    qed
  qed
qed

section \<open>Threshold evaluation: order, strictness, counts\<close>

lemma alert_metrics:
  "map alert_metric (check_thresholds lib m s) =
     map Some (filter (exceeds m s) [CPU, Memory, Disk])"
  by (simp add: check_thresholds_def Let_def exceeds_def alert_metric_def)

text \<open>
  C4. For every snapshot and every threshold configuration, the metrics reported by the
  list that \<open>check_thresholds\<close> returns are, in this order, those of CPU, Memory and
  Disk that exceed their threshold: whatever subset triggers, CPU comes first, then
  Memory, then Disk.
\<close>

theorem violations_ordered:
  "map alert_metric (check_thresholds lib m s) =
     map Some (filter (exceeds m s) [CPU, Memory, Disk])"
  by (rule alert_metrics)

text \<open>
  C5. The comparison is strict for every metric: a metric whose observed percent equals
  its threshold has no alert in the result, and a metric has an alert exactly when its
  percent is greater than the threshold. With threshold 80, an observed 80.0 gives no
  alert and an observed 80.1 gives one.
\<close>

theorem threshold_strict:
  "(metric_percent k s = num_val (metric_threshold k (thresholds (config m)))
      \<longrightarrow> Some k \<notin> set (map alert_metric (check_thresholds lib m s)))
   \<and> (Some k \<in> set (map alert_metric (check_thresholds lib m s)))
       = (num_val (metric_threshold k (thresholds (config m))) < metric_percent k s)"
  unfolding alert_metrics by (cases k) (auto simp: exceeds_def)

theorem threshold_strict_witness:
  "metric_percent CPU (example_stats 80 60 45)
     = num_val (metric_threshold CPU (thresholds (config default_monitor)))
   \<and> Some CPU \<notin> set (map alert_metric
        (check_thresholds example_lib default_monitor (example_stats 80 60 45)))
   \<and> check_thresholds example_lib default_monitor (example_stats 80 60 45) = []
   \<and> check_thresholds example_lib default_monitor (example_stats double_80_1 60 45)
       = [''CPU usage: 80.1% (threshold: 80%)'']"
proof -
  have h: "metric_percent CPU (example_stats 80 60 45)
     = num_val (metric_threshold CPU (thresholds (config default_monitor)))"
    by (simp add: example_stats_def default_monitor_def get_default_config_def)
  have a: "Some CPU \<notin> set (map alert_metric
        (check_thresholds example_lib default_monitor (example_stats 80 60 45)))"
    using threshold_strict [of CPU "example_stats 80 60 45" default_monitor example_lib] h
    by blast
  have b: "check_thresholds example_lib default_monitor (example_stats 80 60 45) = []"
    by (simp add: check_thresholds_def example_stats_def default_monitor_def
          get_default_config_def Let_def)
  have f: "format_1f double_80_1 = ''80.1''"
    by (simp add: format_1f_def round_half_even_def double_80_1_def Let_def
          str_nat.simps digit_char_def)
  have g: "(80::real) < double_80_1" by (simp add: double_80_1_def)
  have c: "check_thresholds example_lib default_monitor (example_stats double_80_1 60 45)
       = [''CPU usage: 80.1% (threshold: 80%)'']"
    using g by (simp add: check_thresholds_def example_stats_def default_monitor_def
          get_default_config_def Let_def f str_int_def str_nat.simps digit_char_def)
  from h a b c show ?thesis by blast
qed

text \<open>
  C6. The result holds exactly one CPU alert when the CPU percent is above the CPU
  threshold and none otherwise; with thresholds 80, 85, 90 and a snapshot at 92.3, 60.0
  and 45.0 percent the result is the single alert
  \<open>CPU usage: 92.3% (threshold: 80%)\<close>.
\<close>

theorem cpu_violation_count:
  "length (filter (\<lambda>a. alert_metric a = Some CPU) (check_thresholds lib m s)) =
     (if num_val (thr_cpu (thresholds (config m))) < cpu_percent (cpu s) then 1 else 0)
   \<and> check_thresholds lib
        (m\<lparr>config := (config m)\<lparr>thresholds :=
            \<lparr>thr_cpu = PyInt 80, thr_memory = PyInt 85, thr_disk = PyInt 90\<rparr>\<rparr>\<rparr>)
        (example_stats double_92_3 60 45)
       = [''CPU usage: 92.3% (threshold: 80%)'']"
proof -
  have f: "format_1f double_92_3 = ''92.3''"
    by (simp add: format_1f_def round_half_even_def double_92_3_def Let_def
          str_nat.simps digit_char_def)
  have g: "(80::real) < double_92_3" by (simp add: double_92_3_def)
  have a: "length (filter (\<lambda>a. alert_metric a = Some CPU) (check_thresholds lib m s)) =
     (if num_val (thr_cpu (thresholds (config m))) < cpu_percent (cpu s) then 1 else 0)"
    by (simp add: check_thresholds_def Let_def alert_metric_def)
  have b: "check_thresholds lib
        (m\<lparr>config := (config m)\<lparr>thresholds :=
            \<lparr>thr_cpu = PyInt 80, thr_memory = PyInt 85, thr_disk = PyInt 90\<rparr>\<rparr>\<rparr>)
        (example_stats double_92_3 60 45)
       = [''CPU usage: 92.3% (threshold: 80%)'']"
    using g by (simp add: check_thresholds_def example_stats_def Let_def f str_int_def
          str_nat.simps digit_char_def)
  from a b show ?thesis by blast
qed

section \<open>Configuration fallback\<close>

text \<open>
  C7, as stated, fails: an exception of \<open>open\<close> or of the parser that is neither
  \<open>FileNotFoundError\<close> nor \<open>YAMLError\<close>, such as the \<open>PermissionError\<close> of an
  unreadable file or the \<open>UnicodeDecodeError\<close> of a file that is not text, passes both
  handlers of the loader: no configuration is returned and the constructor fails.
\<close>

theorem config_fallback_counterexample:
  "fst (load_config ''config.yaml''
          (Load_raises (PermissionError ''[Errno 13] Permission denied: config.yaml'')))
     = Inl (PermissionError ''[Errno 13] Permission denied: config.yaml'')
   \<and> fst (init_monitor ''config.yaml''
          (Load_raises (PermissionError ''[Errno 13] Permission denied: config.yaml''))
          Logging_ok)
     = Inl (PermissionError ''[Errno 13] Permission denied: config.yaml'')
   \<and> fst (init_monitor ''config.yaml''
          (Load_raises (UnicodeDecodeError ''invalid start byte'')) Logging_ok)
     = Inl (UnicodeDecodeError ''invalid start byte'')"
  by (simp add: init_monitor_def)

text \<open>
  C7, amended. When opening the configuration file raises \<open>FileNotFoundError\<close>, and
  when reading it raises \<open>YAMLError\<close>, the loader returns the default configuration,
  whose thresholds are 80, 85 and 90, and the constructor goes on with it. Any other
  exception raised while the file is opened or read leaves the loader and the
  constructor.
\<close>

theorem config_fallback:
  "fst (load_config f (Load_raises (FileNotFoundError s))) = Inr (Some get_default_config)
   \<and> fst (load_config f (Load_raises (YAMLError s))) = Inr (Some get_default_config)
   \<and> fst (init_monitor f (Load_raises (FileNotFoundError s)) Logging_ok)
       = Inr \<lparr>config_file = f, config = get_default_config, alert_sent = False, trace = []\<rparr>
   \<and> fst (init_monitor f (Load_raises (YAMLError s)) Logging_ok)
       = Inr \<lparr>config_file = f, config = get_default_config, alert_sent = False, trace = []\<rparr>
   \<and> thresholds get_default_config
       = \<lparr>thr_cpu = PyInt 80, thr_memory = PyInt 85, thr_disk = PyInt 90\<rparr>
   \<and> ((\<forall>t. e \<noteq> FileNotFoundError t) \<and> (\<forall>t. e \<noteq> YAMLError t)
        \<longrightarrow> fst (load_config f (Load_raises e)) = Inl e
            \<and> fst (init_monitor f (Load_raises e) lg) = Inl e)"
proof -
  have a: "fst (load_config f (Load_raises (FileNotFoundError s))) = Inr (Some get_default_config)"
    "fst (load_config f (Load_raises (YAMLError s))) = Inr (Some get_default_config)"
    by simp_all
  have b: "fst (init_monitor f (Load_raises (FileNotFoundError s)) Logging_ok)
       = Inr \<lparr>config_file = f, config = get_default_config, alert_sent = False, trace = []\<rparr>"
    "fst (init_monitor f (Load_raises (YAMLError s)) Logging_ok)
       = Inr \<lparr>config_file = f, config = get_default_config, alert_sent = False, trace = []\<rparr>"
    by (simp_all add: init_monitor_def setup_logging_def)
  have c: "thresholds get_default_config
       = \<lparr>thr_cpu = PyInt 80, thr_memory = PyInt 85, thr_disk = PyInt 90\<rparr>"
    by (simp add: get_default_config_def)
  have d: "(\<forall>t. e \<noteq> FileNotFoundError t) \<and> (\<forall>t. e \<noteq> YAMLError t)
        \<longrightarrow> fst (load_config f (Load_raises e)) = Inl e
            \<and> fst (init_monitor f (Load_raises e) lg) = Inl e"
    by (cases e) (simp_all add: init_monitor_def)
  from a b c d show ?thesis by blast
qed

theorem config_fallback_witness:
  "(\<forall>t. UnicodeDecodeError ''invalid start byte'' \<noteq> FileNotFoundError t)
   \<and> (\<forall>t. UnicodeDecodeError ''invalid start byte'' \<noteq> YAMLError t)
   \<and> fst (load_config ''config.yaml'' (Load_raises (UnicodeDecodeError ''invalid start byte'')))
       = Inl (UnicodeDecodeError ''invalid start byte'')
   \<and> fst (load_config ''config.yaml'' (Load_raises (FileNotFoundError ''config.yaml'')))
       = Inr (Some get_default_config)"
  using config_fallback [of "''config.yaml''" "''config.yaml''"
          "UnicodeDecodeError ''invalid start byte''" Logging_ok]
  by simp

section \<open>Sampling: uptime and failures\<close>

lemma hour_remainder:
  fixes us :: int
  shows "((us div 1000000) mod 86400) div 3600
           = us div 3600000000 - 24 * (us div 86400000000)"
    and "0 \<le> ((us div 1000000) mod 86400) div 3600"
    and "((us div 1000000) mod 86400) div 3600 \<le> 23"
proof -
  define S where "S = us div 1000000"
  have a: "us div 3600000000 = S div 3600"
    using zdiv_zmult2_eq [of 3600 us 1000000] by (simp add: S_def)
  have b: "us div 86400000000 = S div 86400"
    using zdiv_zmult2_eq [of 86400 us 1000000] by (simp add: S_def)
  have "S = S mod 86400 + (24 * (S div 86400)) * 3600" by simp
  then have "S div 3600 = (S mod 86400 + (24 * (S div 86400)) * 3600) div 3600" by simp
  also have "\<dots> = 24 * (S div 86400) + (S mod 86400) div 3600"
    by (rule div_mult_self1) simp
  finally have c: "(S mod 86400) div 3600 = S div 3600 - 24 * (S div 86400)" by simp
  show "((us div 1000000) mod 86400) div 3600
           = us div 3600000000 - 24 * (us div 86400000000)"
    using a b c by (simp add: S_def)
  show "0 \<le> ((us div 1000000) mod 86400) div 3600" by simp
  have "(us div 1000000) mod 86400 \<le> 86399"
    using pos_mod_bound [of 86400 "us div 1000000"] by simp
  then have "((us div 1000000) mod 86400) div 3600 \<le> 86399 div 3600"
    by (rule zdiv_mono1) simp
  then show "((us div 1000000) mod 86400) div 3600 \<le> 23" by simp
qed

lemma get_system_stats_uptime:
  assumes "get_system_stats lib (Readings r) m = (Inr (Some s), m1)"
  shows "uptime_days (system s) = (r_now_uptime r - r_boot_time r) div 86400000000"
    and "uptime_hours (system s) = (((r_now_uptime r - r_boot_time r) div 1000000) mod 86400) div 3600"
  using assms by (auto simp: Let_def datetime_sub_def split: if_splits)

lemma hot_sample:
  "get_system_stats example_lib (Readings hot_readings) m
     = (Inr (Some (example_stats double_92_3 60 50)), m)"
  by (simp add: hot_readings_def example_lib_def example_stats_def datetime_sub_def
        strftime_def Let_def)

lemma format_92_3: "format_1f double_92_3 = ''92.3''"
  by (simp add: format_1f_def round_half_even_def double_92_3_def Let_def
        str_nat.simps digit_char_def)

lemma hot_alerts:
  assumes "thresholds (config m) = thresholds get_default_config"
  shows "check_thresholds lib m (example_stats double_92_3 60 d)
           = [''CPU usage: 92.3% (threshold: 80%)'']
             @ (if 90 < d then [''Disk usage: '' @ format_1f d @ ''% (threshold: 90%) - 50.0GB used''] else [])"
proof -
  have g: "(80::real) < double_92_3" by (simp add: double_92_3_def)
  have f50: "format_1f 50 = ''50.0''"
    by (simp add: format_1f_def round_half_even_def Let_def str_nat.simps digit_char_def)
  show ?thesis
    using g assms
    by (simp add: check_thresholds_def example_stats_def get_default_config_def Let_def
          format_92_3 f50 str_int_def str_nat.simps digit_char_def)
qed

text \<open>
  C9. In every snapshot that sampling produces, \<open>uptime_hours\<close> lies between 0 and 23
  and is the number of whole hours since boot less 24 times \<open>uptime_days\<close>: the hours
  that remain after the whole days, not the total of elapsed hours.
\<close>

theorem uptime_hours_remainder:
  assumes "get_system_stats lib (Readings r) m = (Inr (Some s), m1)"
  shows "0 \<le> uptime_hours (system s) \<and> uptime_hours (system s) \<le> 23
       \<and> uptime_hours (system s)
           = (r_now_uptime r - r_boot_time r) div 3600000000 - 24 * uptime_days (system s)"
  using hour_remainder [of "r_now_uptime r - r_boot_time r"] get_system_stats_uptime [OF assms]
  by simp

theorem uptime_hours_remainder_witness:
  "get_system_stats example_lib (Readings hot_readings) default_monitor
     = (Inr (Some (example_stats double_92_3 60 50)), default_monitor)
   \<and> uptime_hours (system (example_stats double_92_3 60 50)) = 5
   \<and> (r_now_uptime hot_readings - r_boot_time hot_readings) div 3600000000 = 77
   \<and> uptime_hours (system (example_stats double_92_3 60 50))
       = (r_now_uptime hot_readings - r_boot_time hot_readings) div 3600000000
         - 24 * uptime_days (system (example_stats double_92_3 60 50))"
  using uptime_hours_remainder [OF hot_sample [of default_monitor]] hot_sample [of default_monitor]
  by (simp add: example_stats_def hot_readings_def)

text \<open>
  C10. When \<open>get_system_stats\<close> returns the empty dict, \<open>run_once\<close> returns the empty
  dict with the monitor as \<open>get_system_stats\<close> left it: \<open>alert_sent\<close> is unchanged and
  the only thing emitted is the error line of the failed sample, so no thresholds were
  reported, nothing was displayed and no notification was attempted.
\<close>

theorem run_once_empty_sample:
  assumes "get_system_stats lib (provider env) m = (Inr None, m1)"
  shows "run_once lib env m = (Inr None, m1) \<and> alert_sent m1 = alert_sent m
       \<and> (\<exists>msg. trace m1 = trace m @ [Log_error msg])"
proof -
  have a: "run_once lib env m = (Inr None, m1)"
    using assms by (simp add: run_once_def)
  have b: "alert_sent m1 = alert_sent m \<and> (\<exists>msg. trace m1 = trace m @ [Log_error msg])"
    using assms by (cases "provider env") (auto simp: Let_def split: if_splits)
  from a b show ?thesis by blast
qed

theorem run_once_empty_sample_witness:
  "get_system_stats example_lib
      (provider (cycle (Provider_raises (OtherException ''sensor failure'')) Smtp_ok Slept))
      scenario_monitor
     = (Inr None, emit (Log_error ''Error collecting system stats: sensor failure'') scenario_monitor)
   \<and> run_once example_lib
        (cycle (Provider_raises (OtherException ''sensor failure'')) Smtp_ok Slept)
        scenario_monitor
       = (Inr None, emit (Log_error ''Error collecting system stats: sensor failure'') scenario_monitor)
   \<and> alert_sent (emit (Log_error ''Error collecting system stats: sensor failure'') scenario_monitor)
       = alert_sent scenario_monitor"
proof -
  have h: "get_system_stats example_lib
      (provider (cycle (Provider_raises (OtherException ''sensor failure'')) Smtp_ok Slept))
      scenario_monitor
     = (Inr None, emit (Log_error ''Error collecting system stats: sensor failure'') scenario_monitor)"
    by (simp add: cycle_def)
  from run_once_empty_sample [OF h] h show ?thesis by simp
qed

section \<open>The notification gate and the session flag\<close>

lemma send_alert_dispatches:
  "dispatches (trace (snd (send_alert out alerts s m)))
     = dispatches (trace m)
       + (if alerts \<noteq> [] \<and> enabled (email (config m)) \<and> \<not> alert_sent m then 1 else 0)"
  by (cases out) (auto simp: send_alert_def Let_def)


lemma send_alert_quit_raises:
  "alerts \<noteq> [] \<Longrightarrow> enabled (email (config m)) \<Longrightarrow> \<not> alert_sent m \<Longrightarrow>
     deliveries (trace (snd (send_alert (Smtp_raises Quit e) alerts s m)))
       = Suc (deliveries (trace m))
     \<and> \<not> alert_sent (snd (send_alert (Smtp_raises Quit e) alerts s m))"
  by (simp add: send_alert_def Let_def)

lemma hot_check:
  assumes "thresholds (config m) = thresholds get_default_config"
  shows "check_thresholds lib m hot_stats = hot_alerts_list"
  using hot_alerts [OF assms, of lib 50] by (simp add: hot_stats_def hot_alerts_list_def)

lemma str_nat_1: "str_nat (Suc 0) = ''1''"
  by (simp add: str_nat.simps digit_char_def)

lemma hot_cycle:
  assumes "config m = config scenario_monitor" "\<not> alert_sent m"
  shows "run_once example_lib (cycle (Readings hot_readings) out z) m
     = (case send_alert out hot_alerts_list hot_stats
               (emit (Log_warning ''System alerts triggered: 1 threshold(s) exceeded'')
                  (emit (Display hot_stats hot_alerts_list) m)) of
          (Inl e, m4) \<Rightarrow> (Inl e, m4)
        | (Inr u, m4) \<Rightarrow> (Inr (Some hot_stats), m4))"
proof -
  have t: "thresholds (config m) = thresholds get_default_config"
    using assms by (simp add: scenario_monitor_def)
  have ne: "hot_alerts_list \<noteq> []" by (simp add: hot_alerts_list_def)
  have len: "length hot_alerts_list = Suc 0" by (simp add: hot_alerts_list_def)
  show ?thesis
    using ne
    by (simp add: run_once_def cycle_def hot_sample hot_stats_def [symmetric] hot_check [OF t]
          display_stats_def Let_def len str_nat_1 del: get_system_stats.simps)
qed


lemma scenario_enabled: "enabled (email (config scenario_monitor))"
  by (simp add: scenario_monitor_def)

lemma hot_alerts_nonempty: "hot_alerts_list \<noteq> []"
  by (simp add: hot_alerts_list_def)


lemma hot_cycle_sent:
  assumes "config m = config scenario_monitor" "\<not> alert_sent m"
  shows "run_once example_lib (cycle (Readings hot_readings) Smtp_ok z) m
     = (Inr (Some hot_stats),
        (emit (Log_info ''Alert email sent successfully'')
         (emit (Sent hot_alerts_list hot_stats)
          (emit (Dispatch hot_alerts_list hot_stats)
            (emit (Log_warning ''System alerts triggered: 1 threshold(s) exceeded'')
              (emit (Display hot_stats hot_alerts_list) m)))))\<lparr>alert_sent := True\<rparr>)"
  using assms scenario_enabled hot_alerts_nonempty
  by (simp add: hot_cycle send_alert_def Let_def)

lemma log_basic_stats_simps [simp]:
  "config (log_basic_stats st m) = config m"
  "alert_sent (log_basic_stats st m) = alert_sent m"
  "dispatches (trace (log_basic_stats st m)) = dispatches (trace m)"
  "displays (trace (log_basic_stats st m)) = displays (trace m)"
  by (cases st; simp add: log_basic_stats_def)+

lemma scenario_sleep: 
  "config m = config scenario_monitor \<Longrightarrow> time_sleep (check_interval (config m)) Slept = None"
  by (simp add: time_sleep_def scenario_monitor_def get_default_config_def)


text \<open>
  C2. A call of \<open>send_alert\<close> attempts a dispatch exactly when the alert list is not
  empty, email is enabled in the configuration and \<open>alert_sent\<close> is false: the number
  of dispatch attempts grows by one in that case and stays as it is otherwise. With
  email disabled, no run of the loop attempts a dispatch, whatever the cycles report.
\<close>

theorem notification_gate:
  "dispatches (trace (snd (send_alert out alerts s m)))
     = dispatches (trace m)
       + (if alerts \<noteq> [] \<and> enabled (email (config m)) \<and> \<not> alert_sent m then 1 else 0)
   \<and> (\<not> enabled (email (config m)) \<longrightarrow>
        dispatches (trace (snd (monitoring_loop lib envs m))) = dispatches (trace m))"
proof -
  have "frame m (snd (monitoring_loop lib envs m))"
    by (rule monitoring_loop_frame [of lib envs m "fst (monitoring_loop lib envs m)"]) simp
  then have "\<not> enabled (email (config m)) \<longrightarrow>
        dispatches (trace (snd (monitoring_loop lib envs m))) = dispatches (trace m)"
    by (simp add: frame_def)
  with send_alert_dispatches [of out alerts s m] show ?thesis by blast
qed


theorem notification_gate_witness:
  "\<not> enabled (email (config default_monitor))
   \<and> check_thresholds example_lib default_monitor hot_stats = hot_alerts_list
   \<and> dispatches (trace (snd (send_alert Smtp_ok hot_alerts_list hot_stats default_monitor))) = 0
   \<and> dispatches (trace (snd (monitoring_loop example_lib [sending_cycle, sending_cycle]
                                 default_monitor))) = 0
   \<and> dispatches (trace (snd (send_alert Smtp_ok hot_alerts_list hot_stats scenario_monitor))) = 1"
proof -
  have h: "\<not> enabled (email (config default_monitor))"
    by (simp add: default_monitor_def get_default_config_def)
  have t: "dispatches (trace default_monitor) = 0" "dispatches (trace scenario_monitor) = 0"
    "\<not> alert_sent scenario_monitor"
    by (simp_all add: default_monitor_def scenario_monitor_def)
  have c: "check_thresholds example_lib default_monitor hot_stats = hot_alerts_list"
    by (rule hot_check) (simp add: default_monitor_def)
  from notification_gate [of Smtp_ok hot_alerts_list hot_stats default_monitor example_lib
         "[sending_cycle, sending_cycle]"]
       notification_gate [of Smtp_ok hot_alerts_list hot_stats scenario_monitor example_lib "[]"]
       h t c scenario_enabled hot_alerts_nonempty
  show ?thesis by simp
qed




section \<open>Sampling failures in the continuous loop\<close>

lemma failed_sample_step:
  assumes "is_Exception e" "provider env = Provider_raises e"
  shows "monitoring_loop lib (env # envs) m =
     (let m1 = emit (Log_error (''Error collecting system stats: '' @ exn_str e)) m
      in case time_sleep (check_interval (config m)) (sleep env) of
           Some x \<Rightarrow> (Some x, m1)
         | None \<Rightarrow> monitoring_loop lib envs m1)"
proof -
  have g: "get_system_stats lib (provider env) m
        = (Inr None, emit (Log_error (''Error collecting system stats: '' @ exn_str e)) m)"
    using assms by simp
  have r: "run_once lib env m
        = (Inr None, emit (Log_error (''Error collecting system stats: '' @ exn_str e)) m)"
    using g by (simp add: run_once_def)
  show ?thesis
    using r by (simp add: Let_def log_basic_stats_def)
qed

text \<open>
  C3, as stated, fails: after a cycle whose sampling raised, no exception has left the
  loop; the next cycle samples, displays its snapshot and the loop is still running.
\<close>

theorem sampling_failure_counterexample:
  "fst (run_monitoring example_lib [blind_cycle, sending_cycle] scenario_monitor) = Running
   \<and> displays (trace (snd (run_monitoring example_lib [blind_cycle, sending_cycle]
                              scenario_monitor))) = 1"
proof -
  let ?th = "thresholds (config scenario_monitor)"
  let ?m0 = "emit (Log_info (''Thresholds - CPU: '' @ str_num example_lib (thr_cpu ?th) @ ''%, ''
                  @ ''Memory: '' @ str_num example_lib (thr_memory ?th) @ ''%, ''
                  @ ''Disk: '' @ str_num example_lib (thr_disk ?th) @ ''%''))
                (emit (Log_info (''Monitoring interval: ''
                    @ str_int (check_interval (config scenario_monitor)) @ '' seconds''))
                  (emit (Log_info ''Starting system health monitoring...'') scenario_monitor))"
  let ?m1 = "emit (Log_error (''Error collecting system stats: ''
                @ exn_str (OtherException ''sensor failure''))) ?m0"
  let ?m2 = "(emit (Log_info ''Alert email sent successfully'')
         (emit (Sent hot_alerts_list hot_stats)
          (emit (Dispatch hot_alerts_list hot_stats)
            (emit (Log_warning ''System alerts triggered: 1 threshold(s) exceeded'')
              (emit (Display hot_stats hot_alerts_list) ?m1)))))\<lparr>alert_sent := True\<rparr>"
  let ?m3 = "log_basic_stats (Some hot_stats) ?m2"
  have c0: "config ?m0 = config scenario_monitor" "\<not> alert_sent ?m0"
    "displays (trace ?m0) = 0"
    by (simp_all add: scenario_monitor_def)
  have c1: "config ?m1 = config scenario_monitor" "\<not> alert_sent ?m1"
    "displays (trace ?m1) = 0"
    using c0 by simp_all
  have s1: "monitoring_loop example_lib [blind_cycle, sending_cycle] ?m0
          = monitoring_loop example_lib [sending_cycle] ?m1"
    using failed_sample_step [of "OtherException ''sensor failure''" blind_cycle example_lib
            "[sending_cycle]" ?m0] scenario_sleep [OF c0(1)]
    by (simp add: blind_cycle_def cycle_def Let_def)
  have r2: "run_once example_lib sending_cycle ?m1 = (Inr (Some hot_stats), ?m2)"
    unfolding sending_cycle_def by (rule hot_cycle_sent [OF c1(1) c1(2)])
  have c3: "config ?m3 = config scenario_monitor" using c1(1) by simp
  have s2: "monitoring_loop example_lib [sending_cycle] ?m1 = (None, ?m3)"
    using r2 scenario_sleep [OF c3] by (simp add: Let_def sending_cycle_def cycle_def)
  have d: "displays (trace ?m3) = 1" using c1(3) by simp
  have "run_monitoring example_lib [blind_cycle, sending_cycle] scenario_monitor
          = (Running, ?m3)"
    using s1 s2 by (simp add: run_monitoring_def Let_def)
  with d show ?thesis by simp
qed

text \<open>
  C3, amended. When the metrics provider raises an \<open>Exception\<close> during a cycle, the
  error is logged by \<open>get_system_stats\<close> and goes no further: the cycle produces no
  snapshot, the loop sleeps for the configured interval and continues with the next
  cycle.
\<close>

theorem sampling_failure_skips_cycle:
  assumes "is_Exception e" "provider env = Provider_raises e"
  shows "monitoring_loop lib (env # envs) m =
     (let m1 = emit (Log_error (''Error collecting system stats: '' @ exn_str e)) m
      in case time_sleep (check_interval (config m)) (sleep env) of
           Some x \<Rightarrow> (Some x, m1)
         | None \<Rightarrow> monitoring_loop lib envs m1)"
  using assms by (rule failed_sample_step)

theorem sampling_failure_skips_cycle_witness:
  "is_Exception (OtherException ''sensor failure'')
   \<and> provider blind_cycle = Provider_raises (OtherException ''sensor failure'')
   \<and> monitoring_loop example_lib [blind_cycle] scenario_monitor
       = (None, emit (Log_error ''Error collecting system stats: sensor failure'')
                  scenario_monitor)"
proof -
  have h1: "is_Exception (OtherException ''sensor failure'')" by simp
  have h2: "provider blind_cycle = Provider_raises (OtherException ''sensor failure'')"
    by (simp add: blind_cycle_def cycle_def)
  have z: "time_sleep (check_interval (config scenario_monitor)) (sleep blind_cycle) = None"
    using scenario_sleep [OF refl] by (simp add: blind_cycle_def cycle_def)
  from sampling_failure_skips_cycle [OF h1 h2, of example_lib "[]" scenario_monitor] z h1 h2
  show ?thesis by (simp add: Let_def)
qed

section \<open>Serialization round trip\<close>

lemma digit_char_props:
  assumes "d < 10"
  shows "is_digit (digit_char d)" and "digit_val (digit_char d) = d"
proof -
  from assms have "d = 0 \<or> d = 1 \<or> d = 2 \<or> d = 3 \<or> d = 4 \<or> d = 5 \<or> d = 6 \<or> d = 7
      \<or> d = 8 \<or> d = 9"
    by arith
  then show "is_digit (digit_char d)" and "digit_val (digit_char d) = d"
    by (auto simp: digit_char_def is_digit_def digit_val_def)
qed

lemma digit_char_zero: "d < 10 \<Longrightarrow> digit_char d = CHR ''0'' \<Longrightarrow> d = 0"
  using digit_char_props(2) [of d] by (simp add: digit_val_def)

lemma str_nat_props:
  "list_all is_digit (str_nat n) \<and> str_nat n \<noteq> []
   \<and> foldl (\<lambda>a c. 10 * a + digit_val c) 0 (str_nat n) = n
   \<and> (n \<noteq> 0 \<longrightarrow> hd (str_nat n) \<noteq> CHR ''0'')"
proof (induction n rule: str_nat.induct)
  case (1 n)
  show ?case
  proof (cases "n < 10")
    case True
    then have s: "str_nat n = [digit_char n]" by (simp add: str_nat.simps)
    show ?thesis
      using True digit_char_props [of n] digit_char_zero [of n] by (auto simp: s)
  next
    case False
    then have s: "str_nat n = str_nat (n div 10) @ [digit_char (n mod 10)]"
      by (simp add: str_nat.simps)
    from False have nz: "n div 10 \<noteq> 0" by simp
    have d: "n mod 10 < 10" by simp
    from 1 [OF False] nz digit_char_props [OF d] show ?thesis
      by (simp add: s)
  qed
qed

lemma nat_of_str_str_nat: "nat_of_str (str_nat n) = Some n"
proof (cases "n = 0")
  case True
  then show ?thesis
    by (simp add: nat_of_str_def str_nat.simps digit_char_def is_digit_def digit_val_def)
next
  case False
  with str_nat_props [of n] show ?thesis by (simp add: nat_of_str_def)
qed

lemma is_digit_not_minus: "is_digit c \<Longrightarrow> c \<noteq> CHR ''-''"
  by (auto simp: is_digit_def)

lemma int_of_str_str_int: "int_of_str (str_int i) = Some i"
proof (cases "i < 0")
  case True
  then show ?thesis by (simp add: int_of_str_def str_int_def nat_of_str_str_nat)
next
  case False
  obtain c cs where s: "str_nat (nat i) = c # cs"
    using str_nat_props [of "nat i"] by (cases "str_nat (nat i)") auto
  then have "is_digit c" using str_nat_props [of "nat i"] by simp
  then have "c \<noteq> CHR ''-''" by (rule is_digit_not_minus)
  moreover have "nat_of_str (c # cs) = Some (nat i)"
    using nat_of_str_str_nat [of "nat i"] s by simp
  ultimately show ?thesis using False s by (simp add: int_of_str_def str_int_def)
qed

lemma is_digit_num_char: "is_digit c \<Longrightarrow> is_num_char c \<and> \<not> is_float_mark c"
  by (auto simp: is_num_char_def is_float_mark_def is_digit_def)

lemma str_int_token:
  "list_all is_num_char (str_int i) \<and> \<not> list_ex is_float_mark (str_int i)
   \<and> str_int i \<noteq> [] \<and> (is_digit (hd (str_int i)) \<or> hd (str_int i) = CHR ''-'')"
proof -
  have a: "list_all is_num_char (str_nat n) \<and> \<not> list_ex is_float_mark (str_nat n)" for n
    using str_nat_props [of n] is_digit_num_char
    by (auto simp: list_all_iff list_ex_iff)
  have b: "str_nat n \<noteq> [] \<and> is_digit (hd (str_nat n))" for n
    using str_nat_props [of n] by (cases "str_nat n") auto
  show ?thesis
    using a b by (auto simp: str_int_def is_num_char_def is_float_mark_def)
qed

lemma hex_val_hex_char: "d < 16 \<Longrightarrow> hex_val (hex_char d) = Some d"
proof -
  assume "d < 16"
  then have "d = 0 \<or> d = 1 \<or> d = 2 \<or> d = 3 \<or> d = 4 \<or> d = 5 \<or> d = 6 \<or> d = 7
      \<or> d = 8 \<or> d = 9 \<or> d = 10 \<or> d = 11 \<or> d = 12 \<or> d = 13 \<or> d = 14 \<or> d = 15"
    by arith
  then show ?thesis
    by (auto simp: hex_char_def hex_val_def)
qed

lemma of_char_less_256: "(of_char c :: nat) < 256"
  using of_char_mod_256 [of c, where ?'a = nat] by (metis mod_less_divisor zero_less_numeral)

lemma scan_string_escape:
  "scan_string (escape_char c @ rest) = cons_result c (scan_string rest)"
proof -
  let ?n = "of_char c :: nat"
  have n: "?n < 256" by (rule of_char_less_256)
  consider (quote) "c = CHR 0x22" | (bs) "c = CHR 0x5C" | (n) "c = CHR 0x0A"
    | (r) "c = CHR 0x0D" | (t) "c = CHR 0x09" | (f) "c = CHR 0x0C" | (b) "c = CHR 0x08"
    | (plain) "c \<noteq> CHR 0x22" "c \<noteq> CHR 0x5C" "32 \<le> ?n" "?n \<le> 126"
    | (uni) "c \<noteq> CHR 0x22" "c \<noteq> CHR 0x5C" "c \<noteq> CHR 0x0A" "c \<noteq> CHR 0x0D" "c \<noteq> CHR 0x09"
        "c \<noteq> CHR 0x0C" "c \<noteq> CHR 0x08" "\<not> (32 \<le> ?n \<and> ?n \<le> 126)"
    by blast
  then show ?thesis
  proof cases
    case plain
    then show ?thesis by (auto simp: escape_char_def)
  next
    case uni
    have h1: "hex_val (hex_char (?n div 16)) = Some (?n div 16)"
    proof (rule hex_val_hex_char)
      from n show "?n div 16 < 16" by (simp add: less_mult_imp_div_less)
    qed
    have h0: "hex_val (hex_char (?n mod 16)) = Some (?n mod 16)"
      by (intro hex_val_hex_char) simp
    have z: "hex_val CHR ''0'' = Some 0" by (simp add: hex_val_def)
    have e: "escape_char c = [CHR 0x5C, CHR ''u'', CHR ''0'', CHR ''0'',
            hex_char (?n div 16), hex_char (?n mod 16)]"
      using uni by (simp add: escape_char_def)
    show ?thesis
      using n by (simp add: e h1 h0 z Let_def)
  qed (simp_all add: escape_char_def unescape_def)
qed

lemma scan_string_quote:
  "scan_string (concat (map escape_char s) @ CHR 0x22 # r) = Some (s, r)"
  by (induction s) (simp_all add: scan_string_escape cons_result_def)

lemma skip_ws_append: "list_all is_ws w \<Longrightarrow> skip_ws (w @ s) = skip_ws s"
  by (induction w) (simp_all add: skip_ws_def)

lemma skip_ws_Cons: "\<not> is_ws c \<Longrightarrow> skip_ws (c # s) = c # s"
  by (simp add: skip_ws_def)

lemma nl_ws: "list_all is_ws (nl k)"
  by (simp add: nl_def is_ws_def list_all_iff)

lemma ws_not_num: "is_ws c \<Longrightarrow> \<not> is_num_char c"
  by (auto simp: is_ws_def is_num_char_def is_digit_def)

lemma token_split:
  assumes "list_all is_num_char t" "delim r"
  shows "takeWhile is_num_char (t @ r) = t" and "dropWhile is_num_char (t @ r) = r"
proof -
  have r: "takeWhile is_num_char r = []" "dropWhile is_num_char r = r"
    using assms(2) by (cases r; simp add: delim_def)+
  from assms(1) show "takeWhile is_num_char (t @ r) = t"
    by (simp add: takeWhile_append2 list_all_iff r)
  from assms(1) show "dropWhile is_num_char (t @ r) = r"
    by (simp add: dropWhile_append2 list_all_iff r)
qed

lemma scan_number_int:
  "delim r \<Longrightarrow> scan_number lib (str_int i @ r) = Some (JInt i, r)"
  using str_int_token [of i]
  by (simp add: scan_number_def token_split int_of_str_str_int Let_def)

lemma scan_number_float:
  "delim r \<Longrightarrow> float_token_ok lib x \<Longrightarrow>
     scan_number lib (float_str lib x @ r) = Some (JFloat x, r)"
  by (simp add: scan_number_def token_split float_token_ok_def Let_def)

lemma first_char_cases:
  "is_digit c \<or> c = CHR ''-'' \<Longrightarrow>
     \<not> is_ws c \<and> c \<noteq> CHR ''{'' \<and> c \<noteq> CHR 0x22 \<and> c \<noteq> CHR ''n''"
  by (auto simp: is_digit_def is_ws_def)

lemma parse_value_ws:
  "list_all is_ws w \<Longrightarrow> parse_value lib n (w @ s) = parse_value lib n s"
  by (cases n) (simp_all add: skip_ws_append)

lemma parse_value_int:
  assumes "delim r"
  shows "parse_value lib (Suc n) (str_int i @ r) = Some (JInt i, r)"
proof -
  obtain c cs where s: "str_int i = c # cs"
    using str_int_token [of i] by (cases "str_int i") auto
  then have c: "is_digit c \<or> c = CHR ''-''" using str_int_token [of i] by simp
  from scan_number_int [OF assms, of lib i] s
  have n: "scan_number lib (c # cs @ r) = Some (JInt i, r)" by simp
  show ?thesis
    using first_char_cases [OF c] c n by (simp add: s skip_ws_Cons)
qed

lemma parse_value_float:
  assumes "delim r" "float_token_ok lib x"
  shows "parse_value lib (Suc n) (float_str lib x @ r) = Some (JFloat x, r)"
proof -
  obtain c cs where s: "float_str lib x = c # cs"
    using assms(2) by (cases "float_str lib x") (auto simp: float_token_ok_def)
  then have c: "is_digit c \<or> c = CHR ''-''"
    using assms(2) by (simp add: float_token_ok_def)
  from scan_number_float [OF assms] s
  have n: "scan_number lib (c # cs @ r) = Some (JFloat x, r)" by simp
  show ?thesis
    using first_char_cases [OF c] c n by (simp add: s skip_ws_Cons)
qed

lemma parse_value_null: "parse_value lib (Suc n) (''null'' @ r) = Some (JNull, r)"
  by (simp add: skip_ws_def is_ws_def)

lemma parse_value_str: "parse_value lib (Suc n) (quote s @ r) = Some (JStr s, r)"
  by (simp add: quote_def skip_ws_def is_ws_def scan_string_quote)

lemma mappend_MNil [simp]: "mappend ms MNil = ms"
  by (induction ms "MNil" rule: mappend.induct) simp_all

lemma keys_mappend [simp]: "keys (mappend a b) = keys a @ keys b"
  by (induction a b rule: mappend.induct) simp_all

lemma dict_set_fresh: "k \<notin> set (keys acc) \<Longrightarrow> dict_set k v acc = mappend acc (MCons k v MNil)"
  by (induction k v acc rule: dict_set.induct) auto

lemma mappend_assoc: "mappend (mappend a b) c = mappend a (mappend b c)"
  by (induction a b rule: mappend.induct) simp_all

lemma dict_of_distinct:
  "distinct (keys acc @ keys ms) \<Longrightarrow> dict_of acc ms = mappend acc ms"
proof (induction acc ms rule: dict_of.induct)
  case (1 acc)
  then show ?case by simp
next
  case (2 acc k v ms)
  from "2.prems" have f: "k \<notin> set (keys acc)" by auto
  from "2.prems" have d: "distinct (keys (mappend acc (MCons k v MNil)) @ keys ms)" by auto
  show ?case
    using "2.IH" d by (simp add: dict_set_fresh [OF f] mappend_assoc)
qed

lemma dict_of_wf: "distinct (keys ms) \<Longrightarrow> dict_of MNil ms = ms"
  using dict_of_distinct [of MNil ms] by simp

lemma quote_first: "\<exists>t. quote k = CHR 0x22 # t"
  by (simp add: quote_def)

lemma dumps_members_first:
  "\<exists>t. dumps_members lib l (MCons k v ms) = CHR 0x22 # t"
  by (simp add: quote_def)

lemma parse_members_unfold:
  "parse_members lib (Suc n) (quote k @ '': '' @ body) =
     (case parse_value lib n body of
        None \<Rightarrow> None
      | Some (v, r2) \<Rightarrow>
          (case skip_ws r2 of
             [] \<Rightarrow> None
           | d # r3 \<Rightarrow>
               if d = CHR ''}'' then Some (MCons k v MNil, r3)
               else if d = CHR '','' then
                 (case parse_members lib n (skip_ws r3) of
                    None \<Rightarrow> None
                  | Some (ms, r4) \<Rightarrow> Some (MCons k v ms, r4))
               else None))"
proof -
  have w: "parse_value lib n (CHR '' '' # body) = parse_value lib n body"
    using parse_value_ws [of "[CHR '' '']" lib n body] by (simp add: is_ws_def)
  have c: "skip_ws (CHR '':'' # CHR '' '' # body) = CHR '':'' # CHR '' '' # body"
    by (rule skip_ws_Cons) (simp add: is_ws_def)
  have q: "scan_string (concat (map escape_char k) @ CHR 0x22 # CHR '':'' # CHR '' '' # body)
             = Some (k, CHR '':'' # CHR '' '' # body)"
    by (rule scan_string_quote)
  show ?thesis
    by (simp add: quote_def q c w)
qed

lemma parse_value_obj:
  "parse_value lib (Suc n) (''{'' @ nl k @ CHR 0x22 # t) =
     (case parse_members lib n (CHR 0x22 # t) of
        None \<Rightarrow> None
      | Some (ms, r') \<Rightarrow> Some (JObj (dict_of MNil ms), r'))"
proof -
  have a: "skip_ws (CHR ''{'' # nl k @ CHR 0x22 # t) = CHR ''{'' # nl k @ CHR 0x22 # t"
    by (rule skip_ws_Cons) (simp add: is_ws_def)
  have b: "skip_ws (nl k @ CHR 0x22 # t) = CHR 0x22 # t"
    using skip_ws_append [OF nl_ws, of k "CHR 0x22 # t"]
    by (simp add: skip_ws_Cons is_ws_def)
  show ?thesis
    by (simp add: a b)
qed

lemma parse_value_empty_obj: "parse_value lib (Suc n) (''{}'' @ r) = Some (JObj MNil, r)"
  by (simp add: skip_ws_def is_ws_def)

lemma delim_ws_close: "list_all is_ws w \<Longrightarrow> delim (w @ CHR ''}'' # r)"
  by (cases w) (auto simp: delim_def is_num_char_def is_digit_def dest: ws_not_num)

lemma skip_ws_close: "list_all is_ws w \<Longrightarrow> skip_ws (w @ CHR ''}'' # r) = CHR ''}'' # r"
  using skip_ws_append [of w "CHR ''}'' # r"] by (simp add: skip_ws_Cons is_ws_def)

lemma parse_dumps:
  fixes v :: json and ms :: members
  shows "jfuel v \<le> n \<Longrightarrow> floats_ok lib v \<Longrightarrow> wf_json v \<Longrightarrow> delim r \<Longrightarrow>
           parse_value lib n (dumps_at lib l v @ r) = Some (v, r)"
    and "ms \<noteq> MNil \<Longrightarrow> mfuel ms \<le> n \<Longrightarrow> mfloats_ok lib ms \<Longrightarrow> wf_members ms \<Longrightarrow>
           list_all is_ws w \<Longrightarrow>
           parse_members lib n (dumps_members lib l ms @ w @ CHR ''}'' # r) = Some (ms, r)"
proof (induction v and ms arbitrary: n r l and n r l w)
  case JNull
  then obtain n' where "n = Suc n'" by (cases n) auto
  then show ?case using parse_value_null [of lib n' r] by simp
next
  case (JInt i)
  then obtain n' where "n = Suc n'" by (cases n) auto
  then show ?case using parse_value_int [OF JInt.prems(4), of lib n' i] by simp
next
  case (JFloat x)
  then obtain n' where "n = Suc n'" by (cases n) auto
  then show ?case using parse_value_float [OF JFloat.prems(4), of lib x n'] JFloat.prems(2)
    by simp
next
  case (JStr s)
  then obtain n' where "n = Suc n'" by (cases n) auto
  then show ?case using parse_value_str [of lib n' s r] by simp
next
  case (JObj ms)
  from JObj.prems(1) obtain n' where n: "n = Suc n'" "mfuel ms \<le> n'" by (cases n) auto
  show ?case
  proof (cases ms)
    case MNil
    then show ?thesis using parse_value_empty_obj [of lib n' r] n by simp
  next
    case (MCons k v ms')
    obtain t where t: "dumps_members lib (Suc l) ms = CHR 0x22 # t"
      using dumps_members_first [of lib "Suc l" k v ms'] MCons by auto
    have ne: "ms \<noteq> MNil" using MCons by simp
    have p: "parse_members lib n' (dumps_members lib (Suc l) ms @ nl l @ CHR ''}'' # r)
               = Some (ms, r)"
      by (rule JObj.IH [OF ne n(2) _ _ nl_ws]) (use JObj.prems in simp_all)
    have d: "dict_of MNil ms = ms"
      using JObj.prems(3) by (simp add: dict_of_wf)
    have "dumps_at lib l (JObj ms) @ r
            = ''{'' @ nl (Suc l) @ CHR 0x22 # (t @ nl l @ CHR ''}'' # r)"
      using MCons t by simp
    moreover have "parse_members lib n' (CHR 0x22 # (t @ nl l @ CHR ''}'' # r)) = Some (ms, r)"
      using p t by simp
    ultimately show ?thesis
      using parse_value_obj [of lib n' "Suc l" "t @ nl l @ CHR ''}'' # r"] d n by simp
  qed
next
  case MNil
  then show ?case by simp
next
  case (MCons k v ms')
  from MCons.prems(2) obtain n' where n: "n = Suc n'" "jfuel v \<le> n'" "mfuel ms' \<le> n'"
    by (cases n) auto
  let ?tail = "(case ms' of MNil \<Rightarrow> [] | MCons _ _ _ \<Rightarrow> '','' @ nl l @ dumps_members lib l ms')"
  let ?rest = "?tail @ w @ CHR ''}'' # r"
  have s: "dumps_members lib l (MCons k v ms') @ w @ CHR ''}'' # r
             = quote k @ '': '' @ (dumps_at lib l v @ ?rest)"
    by simp
  have dl: "delim ?rest"
  proof (cases ms')
    case MNil
    then show ?thesis using delim_ws_close [OF MCons.prems(5)] by simp
  next
    case (MCons k' v' ms'')
    then show ?thesis by (simp add: delim_def is_num_char_def is_digit_def)
  qed
  have e: "parse_members lib n (dumps_members lib l (MCons k v ms') @ w @ CHR ''}'' # r) =
     (case parse_value lib n' (dumps_at lib l v @ ?rest) of
        None \<Rightarrow> None
      | Some (v, r2) \<Rightarrow>
          (case skip_ws r2 of
             [] \<Rightarrow> None
           | d # r3 \<Rightarrow>
               if d = CHR ''}'' then Some (MCons k v MNil, r3)
               else if d = CHR '','' then
                 (case parse_members lib n' (skip_ws r3) of
                    None \<Rightarrow> None
                  | Some (ms, r4) \<Rightarrow> Some (MCons k v ms, r4))
               else None))"
    unfolding n(1) s by (rule parse_members_unfold)
  have pv: "parse_value lib n' (dumps_at lib l v @ ?rest) = Some (v, ?rest)"
    by (rule MCons.IH(1) [OF n(2) _ _ dl]) (use MCons.prems in simp_all)
  show ?case
  proof (cases ms')
    case MNil
    have "skip_ws ?rest = CHR ''}'' # r"
      using skip_ws_close [OF MCons.prems(5)] MNil by simp
    then show ?thesis
      unfolding e pv using MNil by simp
  next
    case (MCons k' v' ms'')
    obtain t where t: "dumps_members lib l ms' = CHR 0x22 # t"
      using dumps_members_first [of lib l k' v' ms''] MCons by auto
    have ne: "ms' \<noteq> MNil" using MCons by simp
    have pm: "parse_members lib n' (dumps_members lib l ms' @ w @ CHR ''}'' # r) = Some (ms', r)"
      by (rule MCons.IH(2) [OF ne n(3) _ _ MCons.prems(5)]) (use MCons.prems in simp_all)
    have r1: "?rest = CHR '','' # (nl l @ dumps_members lib l ms' @ w @ CHR ''}'' # r)"
      using MCons by simp
    have r2: "skip_ws ?rest = ?rest"
      unfolding r1 by (rule skip_ws_Cons) (simp add: is_ws_def)
    have r3: "skip_ws (nl l @ dumps_members lib l ms' @ w @ CHR ''}'' # r)
                = dumps_members lib l ms' @ w @ CHR ''}'' # r"
      using skip_ws_append [OF nl_ws, of l "dumps_members lib l ms' @ w @ CHR ''}'' # r"] t
      by (simp add: skip_ws_Cons is_ws_def)
    have r4: "skip_ws ?rest = CHR '','' # (nl l @ dumps_members lib l ms' @ w @ CHR ''}'' # r)"
      using r2 r1 by simp
    show ?thesis
      unfolding e pv by (simp add: r4 r3 pm del: parse_members.simps parse_value.simps)
  qed
qed

lemma dumps_length:
  fixes v :: json and ms :: members
  shows "floats_ok lib v \<Longrightarrow> jfuel v \<le> length (dumps_at lib l v)"
    and "mfloats_ok lib ms \<Longrightarrow> mfuel ms \<le> length (dumps_members lib l ms)"
proof (induction v and ms arbitrary: l and l)
  case JNull
  then show ?case by simp
next
  case (JInt i)
  then show ?case using str_int_token [of i] by (cases "str_int i") auto
next
  case (JFloat x)
  then show ?case by (cases "float_str lib x") (auto simp: float_token_ok_def)
next
  case (JStr s)
  then show ?case by (simp add: quote_def)
next
  case (JObj ms)
  show ?case
  proof (cases ms)
    case MNil
    then show ?thesis by simp
  next
    case (MCons k v ms')
    have "mfuel ms \<le> length (dumps_members lib (Suc l) ms)"
      by (rule JObj.IH) (use JObj.prems in simp)
    then show ?thesis using MCons by simp
  qed
next
  case MNil
  then show ?case by simp
next
  case (MCons k v ms')
  have a: "jfuel v \<le> length (dumps_at lib l v)"
    by (rule MCons.IH(1)) (use MCons.prems in simp)
  have b: "mfuel ms' \<le> length (dumps_members lib l ms')"
    by (rule MCons.IH(2)) (use MCons.prems in simp)
  have q: "2 \<le> length (quote k)" by (simp add: quote_def)
  show ?case
  proof (cases ms')
    case MNil
    then show ?thesis using a q by simp
  next
    case (MCons k' v' ms'')
    then show ?thesis using a b q by simp
  qed
qed

lemma json_round_trip:
  assumes "floats_ok lib v" "wf_json v"
  shows "json_loads lib (json_dumps lib v) = Some v"
proof -
  have f: "jfuel v \<le> Suc (length (dumps_at lib 0 v))"
    using dumps_length(1) [OF assms(1), of 0] by simp
  have d: "delim []" by (simp add: delim_def)
  have "parse_value lib (Suc (length (dumps_at lib 0 v))) (dumps_at lib 0 v @ [])
          = Some (v, [])"
    by (rule parse_dumps(1) [OF f assms d])
  then show ?thesis
    by (simp add: json_loads_def json_dumps_def skip_ws_def del: parse_value.simps)
qed

lemma wf_json_of_opt_int: "wf_json (json_of_opt_int x)"
  by (cases x) simp_all

lemma wf_json_of_num: "wf_json (json_of_num x)"
  by (cases x) simp_all

lemma stats_doc_wf: "wf_json (stats_doc lib s)"
  by (simp add: stats_doc_def wf_json_of_opt_int wf_json_of_num)

lemma example_tokens:
  "float_token_ok example_lib 80" "float_token_ok example_lib (1 / 2)"
  "float_token_ok example_lib 60" "float_token_ok example_lib 16"
  "float_token_ok example_lib 8" "float_token_ok example_lib 45"
  "float_token_ok example_lib 100" "float_token_ok example_lib 50"
  by (simp_all add: float_token_ok_def example_lib_def example_float_of_str_def
        format_1f_def round_half_even_def str_nat.simps digit_char_def Let_def
        is_digit_def is_num_char_def is_float_mark_def nat_of_str_def digit_val_def)

text \<open>
  C8. The text that \<open>save_stats_json\<close> writes for a snapshot is \<open>json.dumps\<close> of the
  snapshot's document, and \<open>json.loads\<close> of that text is the same document: every
  key, string, int, \<open>None\<close> and float is read back as it was stored. For the floats
  this holds when \<open>float_str\<close> prints each of them as a number token that
  \<open>float_of_str\<close> reads as the same float.
\<close>

theorem snapshot_json_round_trip:
  assumes "floats_ok lib (stats_doc lib s)"
  shows "json_loads lib (json_dumps lib (stats_doc lib s)) = Some (stats_doc lib s)
       \<and> (\<exists>name. trace (snd (save_stats_json lib s filename default_name Write_ok m))
             = trace m @ [Written name (json_dumps lib (stats_doc lib s)),
                          Log_info (''Statistics saved to '' @ name)])"
proof -
  have a: "json_loads lib (json_dumps lib (stats_doc lib s)) = Some (stats_doc lib s)"
    by (rule json_round_trip [OF assms stats_doc_wf])
  have b: "\<exists>name. trace (snd (save_stats_json lib s filename default_name Write_ok m))
             = trace m @ [Written name (json_dumps lib (stats_doc lib s)),
                          Log_info (''Statistics saved to '' @ name)]"
    by (simp add: save_stats_json_def Let_def)
  from a b show ?thesis by blast
qed

theorem snapshot_json_round_trip_witness:
  "floats_ok example_lib (stats_doc example_lib (example_stats 80 60 45))
   \<and> json_loads example_lib (json_dumps example_lib (stats_doc example_lib (example_stats 80 60 45)))
       = Some (stats_doc example_lib (example_stats 80 60 45))"
proof -
  have h: "floats_ok example_lib (stats_doc example_lib (example_stats 80 60 45))"
    using example_tokens by (simp add: stats_doc_def example_stats_def)
  from snapshot_json_round_trip [OF h] h show ?thesis by blast
qed

end
